theory Spec2Isabelle
  imports Main
begin

section \<open>Data model\<close>

text \<open>
  JavaScript strings are modelled as \<open>string\<close>; a \<open>char\<close> stands for one UTF-16 code
  unit below 256, and \<open>length\<close> is the \<open>.length\<close> of the source. Properties that may be
  \<open>undefined\<close> or \<open>null\<close> are \<open>option\<close>s. Objects that gain properties while they
  travel through the promise chain are records extended step by step.
\<close>

text \<open>An \<open>Error\<close> object as the handlers read it: \<open>e.code\<close> and \<open>e.message\<close>.\<close>

record js_error =
  code :: "string option"
  message :: string

text \<open>
  The object \<open>{status, signal, stdout, stderr}\<close>; the streams change type along the way
  (raw strings from the runner, parsed line arrays after \<open>utils.parseOutput\<close>).
\<close>

record ('o, 'e) proc_result =
  status :: "int option"
  signal :: "string option"
  stdout :: 'o
  stderr :: 'e

record ('o, 'e) exec_result = "('o, 'e) proc_result" +
  okToCache :: bool

type_synonym raw_result = "(string, string) exec_result"

text \<open>One line of parsed compiler output, represented by its text.\<close>

type_synonym out_line = string

record asm_line =
  line_text :: "string option"
  line_source :: "nat option"

text \<open>
  \<open>result.asm\<close> is a raw string until the assembly parser has run, then an array of
  lines; a result that must not be cached gets the object \<open>{text: asm}\<close> instead.
\<close>

datatype asm_value = AsmString string | AsmLines "asm_line list" | AsmWrapped "asm_value option"

text \<open>
  \<open>result.execResult\<close>: the parsed result of the sandboxed run, or the object that
  \<open>execBinary\<close> builds when the sandbox rejects.
\<close>

datatype exec_info =
    ExecRan "(out_line list, out_line list) exec_result"
  | ExecFailed "(out_line list, string option) proc_result"

record compile_result = "(out_line list, out_line list) exec_result" +
  dirPath :: "string option"
  asm :: "asm_value option"
  output_file_path :: "string option"
  hasOptOutput :: "bool option"
  optPath :: "string option"
  hasAstOutput :: "bool option"
  astOutput :: "string option"
  execResult :: "exec_info option"
  optOutput :: "string option"
  supportsCfg :: "bool option"
  cfg :: "string option"

text \<open>What a promise of the source can be rejected with.\<close>

datatype rejection =
    RejString string
  | RejError js_error
  | RejResult raw_result
  | RejCleared "(string list, string list) exec_result"

text \<open>\<open>e.message\<close> of a rejection value: only \<open>Error\<close> objects carry one.\<close>

fun rej_message :: "rejection \<Rightarrow> string option" where
  "rej_message (RejError e) = Some (message e)"
| "rej_message (RejString s) = None"
| "rej_message (RejResult r) = None"
| "rej_message (RejCleared r) = None"

datatype 'a promise = Resolved 'a | Rejected rejection | Pending

text \<open>
  A number that has no fraction, as \<open>parseInt\<close> returns it: \<open>NaN\<close>, an infinity (with
  its sign, \<open>True\<close> for the negative one), or an integer that is a double.
\<close>

datatype js_number = NaN | Infinite bool | Num int

text \<open>Everything the code does to the outside world, in program order.\<close>

datatype effect =
    Spawn string "string list"
  | StdinWrite string
  | TreeKill
  | KillChild
  | CacheGet string
  | CachePut string compile_result
  | Enqueue
  | MkTempDir
  | WriteFile string string
  | RemoveDir string
  | Sandbox string
  | HttpGet string js_number string
  | SetTimeout int

section \<open>The process runner: \<open>execute\<close>\<close>

datatype stream_name = Stdout | Stderr

text \<open>
  The child process is the environment: its behaviour is the list of events that reach
  the handlers \<open>execute\<close> installs, in the order the event loop delivers them.
\<close>

datatype child_event =
    Data stream_name string
  | TimerFired
  | Exit
  | Close "int option" "string option"
  | ChildError js_error

record exec_options =
  maxOutput :: "nat option"
  timeoutMs :: "nat option"
  wrapper :: "string option"
  input :: "string option"
  killChild :: bool
  maxErrorOutput :: "nat option"

definition no_options :: exec_options where
  "no_options = \<lparr>maxOutput = None, timeoutMs = None, wrapper = None, input = None,
     killChild = False, maxErrorOutput = None\<rparr>"

text \<open>\<open>x || d\<close> on an optional number and on an optional string.\<close>

definition num_or :: "nat option \<Rightarrow> nat \<Rightarrow> nat" where
  "num_or x d = (case x of None \<Rightarrow> d | Some n \<Rightarrow> if n = 0 then d else n)"

definition truthy_str :: "string option \<Rightarrow> bool" where
  "truthy_str x = (case x of None \<Rightarrow> False | Some s \<Rightarrow> s \<noteq> [])"

definition truncatedMarker :: string where
  "truncatedMarker = CHR 0x0A # ''[Truncated]''"

definition timeoutNotice :: string where
  "timeoutNotice = CHR 0x0A # ''Killed - processing time exceeded''"

text \<open>
  \<open>streams.stdout\<close> and \<open>streams.stderr\<close> are kept as the sequence of pieces that
  \<open>+=\<close> appended, so that a marker the runner wrote differs from the same text sent by
  the child; the string of the source is \<open>render\<close> of the pieces.
\<close>

datatype piece = Chunk string | TruncatedMarker | TimeoutNotice

fun piece_text :: "piece \<Rightarrow> string" where
  "piece_text (Chunk d) = d"
| "piece_text TruncatedMarker = truncatedMarker"
| "piece_text TimeoutNotice = timeoutNotice"

definition render :: "piece list \<Rightarrow> string" where
  "render ps = concat (map piece_text ps)"

record run_state =
  s_stderr :: "piece list"
  s_stdout :: "piece list"
  s_truncated :: bool
  s_okToCache :: bool
  s_running :: bool
  s_timeout :: bool
  s_effects :: "effect list"

definition effectiveMaxOutput :: "exec_options \<Rightarrow> nat" where
  "effectiveMaxOutput opts = num_or (maxOutput opts) (1024 * 1024)"

definition effectiveTimeoutMs :: "exec_options \<Rightarrow> nat" where
  "effectiveTimeoutMs opts = num_or (timeoutMs opts) 0"

definition initial_state :: "exec_options \<Rightarrow> run_state" where
  "initial_state opts =
     \<lparr>s_stderr = [], s_stdout = [], s_truncated = False, s_okToCache = True,
      s_running = True, s_timeout = (effectiveTimeoutMs opts \<noteq> 0), s_effects = []\<rparr>"

text \<open>\<open>kill\<close>: the caller's \<open>killChild\<close>, or \<open>treeKill\<close> while the child is running.\<close>

definition kill :: "exec_options \<Rightarrow> run_state \<Rightarrow> run_state" where
  "kill opts s =
     (if killChild opts then s\<lparr>s_effects := s_effects s @ [KillChild]\<rparr>
      else if s_running s then s\<lparr>s_effects := s_effects s @ [TreeKill]\<rparr>
      else s)"

fun stream :: "stream_name \<Rightarrow> run_state \<Rightarrow> piece list" where
  "stream Stdout s = s_stdout s"
| "stream Stderr s = s_stderr s"

fun append_piece :: "stream_name \<Rightarrow> piece \<Rightarrow> run_state \<Rightarrow> run_state" where
  "append_piece Stdout p s = s\<lparr>s_stdout := s_stdout s @ [p]\<rparr>"
| "append_piece Stderr p s = s\<lparr>s_stderr := s_stderr s @ [p]\<rparr>"

text \<open>The \<open>'data'\<close> handler of \<open>setupStream\<close>.\<close>

definition on_data :: "exec_options \<Rightarrow> stream_name \<Rightarrow> string \<Rightarrow> run_state \<Rightarrow> run_state" where
  "on_data opts nm d s =
     (if s_truncated s then s
      else if length (render (stream nm s)) > effectiveMaxOutput opts
        then kill opts ((append_piece nm TruncatedMarker s)\<lparr>s_truncated := True\<rparr>)
      else append_piece nm (Chunk d) s)"

text \<open>The \<open>setTimeout\<close> callback; it runs only while the timer is pending.\<close>

definition on_timeout :: "exec_options \<Rightarrow> run_state \<Rightarrow> run_state" where
  "on_timeout opts s =
     (if s_timeout s
      then append_piece Stderr TimeoutNotice
             (kill opts (s\<lparr>s_okToCache := False, s_timeout := False\<rparr>))
      else s)"

text \<open>The \<open>'exit'\<close> handler: \<open>clearTimeout\<close>, \<open>running = false\<close>.\<close>

definition on_exit :: "run_state \<Rightarrow> run_state" where
  "on_exit s = s\<lparr>s_timeout := False, s_running := False\<rparr>"

text \<open>The result object built by the \<open>'close'\<close> handler.\<close>

definition close_result :: "int option \<Rightarrow> string option \<Rightarrow> run_state \<Rightarrow> raw_result" where
  "close_result c sg s =
     \<lparr>status = c, signal = sg, stdout = render (s_stdout s), stderr = render (s_stderr s),
      okToCache = s_okToCache s\<rparr>"

text \<open>
  The handlers run event by event until the returned promise settles: \<open>'close'\<close>
  resolves it, \<open>'error'\<close> rejects it. A child that never closes leaves it pending.
\<close>

fun run_child :: "exec_options \<Rightarrow> run_state \<Rightarrow> child_event list \<Rightarrow> raw_result promise \<times> run_state" where
  "run_child opts s [] = (Pending, s)"
| "run_child opts s (Data nm d # evs) = run_child opts (on_data opts nm d s) evs"
| "run_child opts s (TimerFired # evs) = run_child opts (on_timeout opts s) evs"
| "run_child opts s (Exit # evs) = run_child opts (on_exit s) evs"
| "run_child opts s (Close c sg # evs) = (Resolved (close_result c sg s), s\<lparr>s_timeout := False\<rparr>)"
| "run_child opts s (ChildError e # evs) = (Rejected (RejError e), s)"

text \<open>The command line after the optional wrapper has been put in front.\<close>

definition spawn_line :: "string \<Rightarrow> string list \<Rightarrow> exec_options \<Rightarrow> string \<times> string list" where
  "spawn_line command args opts =
     (case wrapper opts of
        Some w \<Rightarrow> if w \<noteq> [] then (w, command # args) else (command, args)
      | None \<Rightarrow> (command, args))"

definition stdin_effects :: "exec_options \<Rightarrow> effect list" where
  "stdin_effects opts =
     (case input opts of
        Some i \<Rightarrow> if i \<noteq> [] then [StdinWrite i] else []
      | None \<Rightarrow> [])"

definition exec_run :: "exec_options \<Rightarrow> child_event list \<Rightarrow> raw_result promise \<times> run_state" where
  "exec_run opts evs = run_child opts (initial_state opts) evs"

definition execute :: "string \<Rightarrow> string list \<Rightarrow> exec_options \<Rightarrow> child_event list
    \<Rightarrow> raw_result promise \<times> effect list" where
  "execute command args opts evs =
     (let (c, a) = spawn_line command args opts;
          (p, s) = exec_run opts evs
      in (p, Spawn c a # stdin_effects opts @ s_effects s))"

text \<open>The timer callback runs: a \<open>TimerFired\<close> arrives before the child exits or closes.\<close>

fun timer_fires :: "child_event list \<Rightarrow> bool" where
  "timer_fires [] = False"
| "timer_fires (TimerFired # evs) = True"
| "timer_fires (Data nm d # evs) = timer_fires evs"
| "timer_fires (Exit # evs) = False"
| "timer_fires (Close c sg # evs) = False"
| "timer_fires (ChildError e # evs) = False"


section \<open>Strings and objects of the host language\<close>

text \<open>\<open>s.split(c)\<close> for a one-character separator.\<close>

fun split_on :: "char \<Rightarrow> string \<Rightarrow> string list" where
  "split_on c [] = [[]]"
| "split_on c (x # xs) =
     (if x = c then [] # split_on c xs
      else (case split_on c xs of [] \<Rightarrow> [[x]] | w # ws \<Rightarrow> (x # w) # ws))"

text \<open>\<open>xs.join(sep)\<close>.\<close>

fun join :: "string \<Rightarrow> string list \<Rightarrow> string" where
  "join sep [] = []"
| "join sep [x] = x"
| "join sep (x # y # ys) = x @ sep @ join sep (y # ys)"

text \<open>A natural number as JavaScript prints it.\<close>

definition digit_char :: "nat \<Rightarrow> char" where
  "digit_char d = ''0123456789'' ! d"

fun show_nat :: "nat \<Rightarrow> string" where
  "show_nat n = (if n < 10 then [digit_char n] else show_nat (n div 10) @ [digit_char (n mod 10)])"

declare show_nat.simps [simp del]

definition show_int :: "int \<Rightarrow> string" where
  "show_int i = (if i < 0 then CHR ''-'' # show_nat (nat (- i)) else show_nat (nat i))"

text \<open>
  The double nearest to a natural number, ties to the even mantissa; \<open>None\<close> when that is
  beyond the largest double. Numbers below \<open>2^53\<close> are doubles themselves.
\<close>

fun bit_length :: "nat \<Rightarrow> nat" where
  "bit_length n = (if n = 0 then 0 else Suc (bit_length (n div 2)))"

declare bit_length.simps [simp del]

definition to_double :: "nat \<Rightarrow> nat option" where
  "to_double n =
     (if n < 2 ^ 53 then Some n
      else (let e = bit_length n - 53;
                q = n div 2 ^ e;
                r = n mod 2 ^ e;
                q = (if 2 ^ e < 2 * r \<or> (2 * r = 2 ^ e \<and> odd q) then q + 1 else q)
            in if 2 ^ 1024 \<le> q * 2 ^ e then None else Some (q * 2 ^ e)))"

text \<open>
  \<open>"" + x\<close> for a double \<open>x\<close> that is a natural number. From \<open>2^53\<close> on the digits are
  the shortest decimal \<open>s * 10^e\<close> with up to 17 digits whose nearest double is \<open>x\<close>, the
  closest to \<open>x\<close> if there are several; they are followed by \<open>e\<close> zeros when the number
  has at most 21 digits and written with an exponent otherwise.
\<close>

definition digits_candidates :: "nat \<Rightarrow> nat \<Rightarrow> (nat \<times> nat) list" where
  "digits_candidates x k =
     [(s, e). e \<leftarrow> [length (show_nat x) - k, length (show_nat x) + 1 - k],
              s \<leftarrow> [x div 10 ^ e, x div 10 ^ e + 1],
              10 ^ (k - 1) \<le> s \<and> s < 10 ^ k \<and> to_double (s * 10 ^ e) = Some x]"

definition nearer :: "nat \<Rightarrow> nat \<times> nat \<Rightarrow> nat \<times> nat \<Rightarrow> nat \<times> nat" where
  "nearer x a b =
     (let da = \<bar>int (fst a * 10 ^ snd a) - int x\<bar>;
          db = \<bar>int (fst b * 10 ^ snd b) - int x\<bar>
      in if db < da \<or> (db = da \<and> even (fst b)) then b else a)"

definition shortest_digits :: "nat \<Rightarrow> nat \<times> nat" where
  "shortest_digits x =
     (case filter (\<lambda>cs. cs \<noteq> []) (map (digits_candidates x) [1..<min 18 (length (show_nat x) + 1)]) of
        [] \<Rightarrow> (x, 0)
      | cs # others \<Rightarrow> foldl (nearer x) (hd cs) (tl cs))"

definition nat_text :: "nat \<Rightarrow> string" where
  "nat_text x =
     (if x < 2 ^ 53 then show_nat x
      else (let (s, e) = shortest_digits x;
                ds = show_nat s;
                n = length ds + e
            in if n \<le> 21 then ds @ replicate e CHR ''0''
               else hd ds # (if tl ds = [] then [] else CHR ''.'' # tl ds)
                      @ ''e+'' @ show_nat (n - 1)))"

definition number_text :: "js_number \<Rightarrow> string" where
  "number_text x =
     (case x of
        NaN \<Rightarrow> ''NaN''
      | Infinite negative \<Rightarrow> (if negative then ''-Infinity'' else ''Infinity'')
      | Num i \<Rightarrow> (if i < 0 then CHR ''-'' # nat_text (nat (- i)) else nat_text (nat i)))"

text \<open>\<open>s.indexOf(p) === 0\<close> and \<open>s.includes(p)\<close>.\<close>

fun starts_with :: "string \<Rightarrow> string \<Rightarrow> bool" where
  "starts_with s [] = True"
| "starts_with [] (p # ps) = False"
| "starts_with (c # cs) (p # ps) = (c = p \<and> starts_with cs ps)"

fun includes_str :: "string \<Rightarrow> string \<Rightarrow> bool" where
  "includes_str [] p = (p = [])"
| "includes_str (c # cs) p = (starts_with (c # cs) p \<or> includes_str cs p)"

text \<open>
  An object whose properties are booleans (a filter set, the backend options): its
  properties in the order in which JavaScript enumerates them, which is the array indices
  in ascending order and then the other names in the order of their creation. Reading a
  missing property gives \<open>undefined\<close>, which is falsy.
\<close>

type_synonym flags = "(string \<times> bool) list"

definition flag :: "flags \<Rightarrow> string \<Rightarrow> bool" where
  "flag obj k = (case map_of obj k of Some b \<Rightarrow> b | None \<Rightarrow> False)"

definition delete_key :: "string \<Rightarrow> flags \<Rightarrow> flags" where
  "delete_key k obj = filter (\<lambda>(k', v). k' \<noteq> k) obj"

text \<open>
  A property name that is an array index: the decimal text, without leading zeros, of
  a number below \<open>2^32 - 1\<close>.
\<close>

definition array_index :: "string \<Rightarrow> nat option" where
  "array_index k =
     (if k \<noteq> [] \<and> list_all (\<lambda>c. c \<in> set ''0123456789'') k \<and> (k = ''0'' \<or> hd k \<noteq> CHR ''0'')
      then (let n = foldl (\<lambda>a c. a * 10 + (of_char c - 48)) 0 k
            in if n < 2 ^ 32 - 1 then Some n else None)
      else None)"

definition before_index :: "nat \<Rightarrow> string \<times> bool \<Rightarrow> bool" where
  "before_index i p = (case array_index (fst p) of Some j \<Rightarrow> j < i | None \<Rightarrow> False)"

text \<open>
  \<open>obj[k] = v\<close> for a boolean \<open>v\<close>: an existing property keeps its place; a new array
  index goes behind the smaller indices, any other new name to the end. The name
  \<open>__proto__\<close> is the inherited setter, which ignores a boolean.
\<close>

definition set_key :: "string \<Rightarrow> bool \<Rightarrow> flags \<Rightarrow> flags" where
  "set_key k v obj =
     (if k = ''__proto__'' then obj
      else if k \<in> fst ` set obj then map (\<lambda>(k', v'). if k' = k then (k', v) else (k', v')) obj
      else (case array_index k of
              None \<Rightarrow> obj @ [(k, v)]
            | Some i \<Rightarrow> takeWhile (before_index i) obj @ (k, v) # dropWhile (before_index i) obj))"

text \<open>
  The properties of an object in the order in which JavaScript enumerates them, whatever
  the order of the list: the array indices by ascending value, then the other names as
  they stand.
\<close>

definition own_properties :: "flags \<Rightarrow> flags" where
  "own_properties obj =
     sort_key (\<lambda>p. case array_index (fst p) of Some i \<Rightarrow> i | None \<Rightarrow> 0)
       [p \<leftarrow> obj. array_index (fst p) \<noteq> None]
     @ [p \<leftarrow> obj. array_index (fst p) = None]"

text \<open>\<open>_.object(pairs)\<close>: the pairs are assigned one after the other.\<close>

definition object_of :: "(string \<times> bool) list \<Rightarrow> flags" where
  "object_of pairs = foldl (\<lambda>obj (k, v). set_key k v obj) [] pairs"

section \<open>The compiler descriptor\<close>

record descriptor =
  compilerId :: string
  exe :: "string option"
  name :: string
  aliasName :: "string option"
  options :: "string option"
  versionFlag :: "string option"
  versionRe :: "string option"
  compilerType :: string
  demangler :: string
  objdumper :: string
  intelAsm :: string
  needsMulti :: bool
  supportsBinary :: bool
  supportsExecute :: bool
  supportsIntelAsm :: bool
  postProcess :: "string list"
  version :: "string option"
  supportsOptOutput :: bool
  optArg :: "string option"
  remote :: "string option"

section \<open>Argument assembly\<close>

text \<open>An element of the argument array; \<open>None\<close> is an \<open>undefined\<close> element.\<close>

type_synonym arg = "string option"

definition filename :: "string \<Rightarrow> string" where
  "filename fn = fn"

definition optionsForFilter :: "descriptor \<Rightarrow> flags \<Rightarrow> string \<Rightarrow> arg list" where
  "optionsForFilter compiler filters outputFilename =
     (let opts = [Some ''-g'', Some ''-o'', Some (filename outputFilename)];
          opts = (if intelAsm compiler \<noteq> [] \<and> flag filters ''intel'' \<and> \<not> flag filters ''binary''
                  then opts @ map Some (split_on CHR '' '' (intelAsm compiler)) else opts)
      in if flag filters ''binary''
         then (if \<not> flag filters ''link'' then opts @ [Some ''-c''] else opts)
         else opts @ [Some ''-S''])"

definition prepareArguments :: "descriptor \<Rightarrow> string list \<Rightarrow> flags \<Rightarrow> flags option \<Rightarrow> string \<Rightarrow> string
    \<Rightarrow> arg list" where
  "prepareArguments compiler userOptions filters backendOptions inputFilename outputFilename =
     (let opts = optionsForFilter compiler filters outputFilename;
          backendOptions = (case backendOptions of None \<Rightarrow> [] | Some b \<Rightarrow> b);
          opts = (case options compiler of
                    Some s \<Rightarrow> if s \<noteq> [] then opts @ map Some (split_on CHR '' '' s) else opts
                  | None \<Rightarrow> opts);
          opts = (if supportsOptOutput compiler \<and> flag backendOptions ''produceOptInfo''
                  then opts @ [optArg compiler] else opts)
      in opts @ map Some userOptions @ [Some (filename inputFilename)])"

text \<open>\<open>options.filter(_.identity)\<close>: the truthy elements, that is the non-empty strings.\<close>

definition truthy_args :: "arg list \<Rightarrow> string list" where
  "truthy_args as = concat (map (\<lambda>a. case a of None \<Rightarrow> [] | Some s \<Rightarrow> if s = [] then [] else [s]) as)"

section \<open>Regular expressions\<close>

text \<open>
  The patterns of the source use no back-references or look-ahead, so a pattern is a
  regular expression and \<open>line.match(re)\<close> is non-null exactly when some prefix of the
  line belongs to its language (the pattern starts with \<open>^\<close> and has no \<open>$\<close>).
  Membership is decided by derivatives.
\<close>

datatype rx = Null | Eps | OneOf "char list" | NoneOf "char list" | Seq rx rx | Alt rx rx | Star rx

fun nullable :: "rx \<Rightarrow> bool" where
  "nullable Null = False"
| "nullable Eps = True"
| "nullable (OneOf cs) = False"
| "nullable (NoneOf cs) = False"
| "nullable (Seq r s) = (nullable r \<and> nullable s)"
| "nullable (Alt r s) = (nullable r \<or> nullable s)"
| "nullable (Star r) = True"

fun seq :: "rx \<Rightarrow> rx \<Rightarrow> rx" where
  "seq Null s = Null"
| "seq Eps s = s"
| "seq r s = Seq r s"

fun alt :: "rx \<Rightarrow> rx \<Rightarrow> rx" where
  "alt Null s = s"
| "alt r Null = r"
| "alt r s = Alt r s"

fun deriv :: "char \<Rightarrow> rx \<Rightarrow> rx" where
  "deriv c Null = Null"
| "deriv c Eps = Null"
| "deriv c (OneOf cs) = (if c \<in> set cs then Eps else Null)"
| "deriv c (NoneOf cs) = (if c \<in> set cs then Null else Eps)"
| "deriv c (Seq r s) =
     (if nullable r then alt (seq (deriv c r) s) (deriv c s) else seq (deriv c r) s)"
| "deriv c (Alt r s) = alt (deriv c r) (deriv c s)"
| "deriv c (Star r) = seq (deriv c r) (Star r)"

fun rx_test :: "rx \<Rightarrow> string \<Rightarrow> bool" where
  "rx_test r [] = nullable r"
| "rx_test r (c # cs) = (nullable r \<or> rx_test (deriv c r) cs)"

fun lit :: "string \<Rightarrow> rx" where
  "lit [] = Eps"
| "lit (c # cs) = Seq (OneOf [c]) (lit cs)"

text \<open>\<open>\s\<close> and \<open>.\<close> on code units below 256.\<close>

definition space_chars :: "char list" where
  "space_chars = [CHR 0x09, CHR 0x0A, CHR 0x0B, CHR 0x0C, CHR 0x0D, CHR '' '', CHR 0xA0]"

definition rx_space :: rx where
  "rx_space = OneOf space_chars"

definition rx_dot :: rx where
  "rx_dot = NoneOf [CHR 0x0A, CHR 0x0D]"

definition is_space :: "char \<Rightarrow> bool" where
  "is_space c = (c \<in> set space_chars)"

text \<open>\<open>s.trim()\<close>.\<close>

definition trim :: "string \<Rightarrow> string" where
  "trim s = rev (dropWhile is_space (rev (dropWhile is_space s)))"

text \<open>
  \<open>parseInt(s)\<close> without a radix: leading white space, a sign, then decimal digits, or
  hexadecimal digits after \<open>0x\<close>. The result is the double nearest to the number
  written, also where the language lets an engine approximate beyond the 20th digit, and
  \<open>NaN\<close> when no digit is found.
\<close>

fun index_of :: "char \<Rightarrow> string \<Rightarrow> nat option" where
  "index_of c [] = None"
| "index_of c (x # xs) = (if c = x then Some 0 else map_option Suc (index_of c xs))"

definition hex_value :: "char \<Rightarrow> nat option" where
  "hex_value c =
     (case index_of c ''0123456789abcdef'' of Some v \<Rightarrow> Some v
      | None \<Rightarrow> map_option (\<lambda>v. v + 10) (index_of c ''ABCDEF''))"

definition digit_value :: "nat \<Rightarrow> char \<Rightarrow> nat option" where
  "digit_value radix c = (case hex_value c of Some v \<Rightarrow> if v < radix then Some v else None | None \<Rightarrow> None)"

fun parse_digits :: "nat \<Rightarrow> nat option \<Rightarrow> string \<Rightarrow> nat option" where
  "parse_digits radix acc [] = acc"
| "parse_digits radix acc (c # cs) =
     (case digit_value radix c of
        None \<Rightarrow> acc
      | Some v \<Rightarrow> parse_digits radix (Some ((case acc of None \<Rightarrow> 0 | Some a \<Rightarrow> a) * radix + v)) cs)"

definition parseInt :: "string \<Rightarrow> js_number" where
  "parseInt s =
     (let s = dropWhile is_space s;
          neg = starts_with s ''-'';
          s = (if starts_with s ''-'' \<or> starts_with s ''+'' then tl s else s);
          hex = starts_with s ''0x'' \<or> starts_with s ''0X'';
          n = (if hex then parse_digits 16 None (drop 2 s) else parse_digits 10 None s)
      in case n of
           None \<Rightarrow> NaN
         | Some n \<Rightarrow>
             (case to_double n of
                None \<Rightarrow> Infinite neg
              | Some d \<Rightarrow> Num (if neg then - int d else int d)))"

section \<open>The source screen: \<open>checkSource\<close>\<close>

text \<open>The pattern \<open>/^\s*#\s*i(nclude|mport)(_next)?\s+["<"](\/|.*\.\.)/\<close>.\<close>

definition include_re :: rx where
  "include_re =
     Seq (Star rx_space) (Seq (lit ''#'') (Seq (Star rx_space) (Seq (lit ''i'')
     (Seq (Alt (lit ''nclude'') (lit ''mport''))
     (Seq (Alt (lit ''_next'') Eps)
     (Seq (Seq rx_space (Star rx_space))
     (Seq (OneOf [CHR 0x22, CHR ''<'', CHR 0x22])
          (Alt (lit ''/'') (Seq (Star rx_dot) (lit ''..'')))))))))) "

definition include_diagnostic :: "nat \<Rightarrow> string" where
  "include_diagnostic index =
     ''<stdin>:'' @ show_nat (index + 1) @ '':1: no absolute or relative includes please''"

text \<open>The \<open>forEach\<close> over the lines, with its index.\<close>

fun failed_lines :: "nat \<Rightarrow> string list \<Rightarrow> string list" where
  "failed_lines index [] = []"
| "failed_lines index (line # rest) =
     (if rx_test include_re line then [include_diagnostic index] else [])
       @ failed_lines (index + 1) rest"

text \<open>\<open>utils.splitLines\<close> belongs to a module outside the modelled files; it is a parameter.\<close>

definition checkSource :: "(string \<Rightarrow> string list) \<Rightarrow> string \<Rightarrow> string option" where
  "checkSource splitLines src =
     (let failed = failed_lines 0 (splitLines src)
      in if length failed > 0 then Some (join [CHR 0x0A] failed) else None)"

section \<open>The request handler: choosing the filters\<close>

definition getDefaultFilters :: flags where
  "getDefaultFilters =
     [(''intel'', True), (''commentOnly'', True), (''directives'', True), (''labels'', True),
      (''optOutput'', False)]"

text \<open>\<open>getRemote\<close>: the remote of a descriptor without a local executable, or \<open>false\<close>.\<close>

definition getRemote :: "descriptor \<Rightarrow> string option" where
  "getRemote compiler =
     (if exe compiler = None \<and> truthy_str (remote compiler) then remote compiler else None)"

text \<open>\<open>req.body.options\<close> of a JSON request.\<close>

record json_options =
  userArguments :: "string option"
  compilerOptions :: "flags option"
  requestFilters :: "flags option"

text \<open>
  What the handler reads of a request: \<open>req.is('json')\<close>, \<open>req.compiler\<close>, the fields of a
  JSON body, the text body of an API-style request, and the query parameters.
\<close>

record request =
  is_json :: bool
  req_compiler :: "string option"
  body_compiler :: "string option"
  body_source :: "string option"
  body_options :: "json_options option"
  body_text :: "string option"
  query_options :: "string option"
  query_filters :: "string option"
  query_addFilters :: "string option"
  query_removeFilters :: "string option"

text \<open>
  How the handler ends: \<open>next()\<close> for an unknown compiler, the proxy for a remote one,
  \<open>next(new Error("Bad request"))\<close>, an exception thrown on the way, or the call
  \<open>compiler.compile(source, options, backendOptions, filters)\<close>.
\<close>

datatype handler_action =
    Next
  | Proxy string
  | BadRequest
  | Throws
  | CallCompile descriptor string "string list" "flags option" flags

definition str_or_empty :: "string option \<Rightarrow> string" where
  "str_or_empty x = (case x of None \<Rightarrow> [] | Some s \<Rightarrow> s)"

text \<open>
  The common tail of both request styles. \<open>backendOptions\<close> is a variable the handler
  never declares: a JSON request assigns it, an API-style request reads what is there,
  and reading it before any assignment throws (\<open>None\<close>). \<open>quote_parse\<close> stands for
  \<open>quote.parse\<close> followed by the map to strings.
\<close>

definition dispatch :: "(string \<Rightarrow> string list) \<Rightarrow> descriptor \<Rightarrow> string option \<Rightarrow> string option
    \<Rightarrow> flags option option \<Rightarrow> flags \<Rightarrow> handler_action" where
  "dispatch quote_parse compiler src opts backendOptions filters =
     (case getRemote compiler of
        Some r \<Rightarrow> Proxy r
      | None \<Rightarrow>
          (case src of
             None \<Rightarrow> BadRequest
           | Some s \<Rightarrow>
               (case backendOptions of
                  None \<Rightarrow> Throws
                | Some b \<Rightarrow>
                    CallCompile compiler s
                      (filter (\<lambda>x. x \<noteq> []) (quote_parse (str_or_empty opts))) b filters)))"

definition api_filters :: "string option \<Rightarrow> string option \<Rightarrow> string option \<Rightarrow> flags" where
  "api_filters q_filters q_addFilters q_removeFilters =
     (let filters = getDefaultFilters;
          filters = (if truthy_str q_filters
                     then object_of (map (\<lambda>f. (f, True)) (split_on CHR '','' (str_or_empty q_filters)))
                     else filters);
          filters = foldl (\<lambda>fs f. set_key f True fs) filters
                      (split_on CHR '','' (str_or_empty q_addFilters))
      in foldl (\<lambda>fs f. delete_key f fs) filters
           (split_on CHR '','' (str_or_empty q_removeFilters)))"

definition handler :: "(string \<Rightarrow> descriptor option) \<Rightarrow> (string \<Rightarrow> string list) \<Rightarrow> flags option option
    \<Rightarrow> request \<Rightarrow> handler_action \<times> flags option option" where
  "handler compilersById quote_parse backendOptions req =
     (if is_json req then
        (case (if truthy_str (req_compiler req) then req_compiler req else body_compiler req) of
           None \<Rightarrow> (Next, backendOptions)
         | Some cid \<Rightarrow>
             (case compilersById cid of
                None \<Rightarrow> (Next, backendOptions)
              | Some compiler \<Rightarrow>
                  (case body_options req of
                     None \<Rightarrow> (Throws, backendOptions)
                   | Some requestOptions \<Rightarrow>
                       (let backendOptions = Some (compilerOptions requestOptions);
                            filters = (case requestFilters requestOptions of
                                         Some f \<Rightarrow> f
                                       | None \<Rightarrow> getDefaultFilters)
                        in (dispatch quote_parse compiler (body_source req)
                              (userArguments requestOptions) backendOptions filters,
                            backendOptions)))))
      else
        (case req_compiler req of
           None \<Rightarrow> (Next, backendOptions)
         | Some cid \<Rightarrow>
             (case compilersById cid of
                None \<Rightarrow> (Next, backendOptions)
              | Some compiler \<Rightarrow>
                  (dispatch quote_parse compiler (body_text req) (query_options req) backendOptions
                     (api_filters (query_filters req) (query_addFilters req)
                        (query_removeFilters req)),
                   backendOptions))))"


section \<open>The sandbox and \<open>execBinary\<close>\<close>

text \<open>\<open>result.signal || result.status !== 0\<close>.\<close>

definition failed :: "('o, 'e, 'z) proc_result_scheme \<Rightarrow> bool" where
  "failed r = (truthy_str (signal r) \<or> status r \<noteq> Some 0)"

text \<open>\<open>path.dirname\<close>, \<open>path.basename\<close> and \<open>path.join\<close> on normalised paths.\<close>

definition path_dirname :: "string \<Rightarrow> string" where
  "path_dirname p =
     (let d = rev (drop 1 (dropWhile (\<lambda>c. c \<noteq> CHR ''/'') (rev p)))
      in if CHR ''/'' \<notin> set p then ''.'' else if d = [] then ''/'' else d)"

definition path_basename :: "string \<Rightarrow> string" where
  "path_basename p = rev (takeWhile (\<lambda>c. c \<noteq> CHR ''/'') (rev p))"

definition path_join :: "string \<Rightarrow> string \<Rightarrow> string" where
  "path_join a b = a @ ''/'' @ b"

text \<open>
  The processes the sandbox waits for, each given by its events: the binary itself when
  the sandbox is disabled, and \<open>docker run\<close>, \<open>docker wait\<close> and \<open>docker logs\<close>
  otherwise. \<open>sandboxType\<close> is the value of the property \<open>sandboxType\<close>.
\<close>

record sandbox_world =
  sandboxType :: string
  direct_events :: "child_event list"
  run_events :: "child_event list"
  wait_events :: "child_event list"
  logs_events :: "child_event list"

definition docker_run_args :: "string \<Rightarrow> string \<Rightarrow> string list \<Rightarrow> string list" where
  "docker_run_args execPath execName args =
     [''run'', ''--detach'', ''--cpu-shares=128'', ''--cpu-quota=25000'',
      ''--ulimit'', ''nofile=20'', ''--ulimit'', ''cpu=3'',
      ''--ulimit'', ''rss='' @ show_nat (128 * 1024),
      ''--network=none'', ''--memory=128M'', ''--memory-swap=0'',
      ''-v'' @ execPath @ '':/home/ce-user:ro'',
      ''mattgodbolt/compiler-explorer:exec'', ''./'' @ execName] @ args"

text \<open>\<open>removeContainer\<close>: \<open>docker rm\<close>, started and not waited for, if there is an id.\<close>

definition removeContainer :: "string \<Rightarrow> effect list" where
  "removeContainer containerId =
     (if containerId \<noteq> [] then [Spawn ''docker'' [''rm'', containerId]] else [])"

text \<open>A promise settles once: a later \<open>resolve\<close> or \<open>reject\<close> changes nothing.\<close>

definition first_settled :: "'a promise \<Rightarrow> 'a promise \<Rightarrow> 'a promise" where
  "first_settled early later = (case early of Pending \<Rightarrow> later | _ \<Rightarrow> early)"

text \<open>The \<open>killChild\<close> of the wait: it starts \<open>docker kill\<close> and sets \<open>killed\<close>.\<close>

definition docker_kill :: "string \<Rightarrow> effect list \<Rightarrow> effect list" where
  "docker_kill containerId fx =
     concat (map (\<lambda>e. if e = KillChild then [Spawn ''docker'' [''kill'', containerId]] else [e]) fx)"

text \<open>
  A number as the \<open>status\<close> of a result: a status that is no finite number is not told
  from a missing one.
\<close>

definition status_of :: "js_number \<Rightarrow> int option" where
  "status_of x = (case x of Num i \<Rightarrow> Some i | _ \<Rightarrow> None)"

text \<open>
  The chain after the container has been started: the wait, then the logs. A failed
  wait or a failed fetch of the logs removes the container in its own handler and once
  more in the last \<open>then\<close>, which still runs.
\<close>

definition sandbox_wait :: "sandbox_world \<Rightarrow> string \<Rightarrow> nat \<Rightarrow> exec_options
    \<Rightarrow> raw_result promise \<times> effect list" where
  "sandbox_wait w containerId timeout opts =
     (let (waited, fxw) = execute ''docker'' [''wait'', containerId]
                            (no_options\<lparr>timeoutMs := Some timeout, killChild := True\<rparr>)
                            (wait_events w);
          killed = (KillChild \<in> set fxw);
          fxw = docker_kill containerId fxw
      in case waited of
           Pending \<Rightarrow> (Pending, fxw)
         | Rejected e \<Rightarrow> (Rejected e, fxw @ removeContainer containerId)
         | Resolved result \<Rightarrow>
             if failed result
             then (Rejected (RejResult result),
                   fxw @ removeContainer containerId @ removeContainer containerId)
             else
               (let returnValue = parseInt (stdout result);
                    (logged, fxl) = execute ''docker'' [''logs'', containerId] opts (logs_events w)
                in case logged of
                     Pending \<Rightarrow> (Pending, fxw @ fxl)
                   | Rejected e \<Rightarrow> (Rejected e, fxw @ fxl @ removeContainer containerId)
                   | Resolved logResult \<Rightarrow>
                       if failed logResult
                       then (Rejected (RejResult logResult),
                             fxw @ fxl @ removeContainer containerId @ removeContainer containerId)
                       else (Resolved (logResult
                               \<lparr>status := status_of returnValue,
                                stdout := (if killed
                                           then stdout logResult @ [CHR 0x0A] @ ''### Killed after ''
                                                  @ show_nat timeout @ ''ms''
                                           else stdout logResult)\<rparr>),
                             fxw @ fxl @ removeContainer containerId)))"

text \<open>
  \<open>sandbox\<close>. When \<open>docker run\<close> fails and printed a container id, the promise is
  rejected with the result, its streams replaced by empty arrays; the chain goes on all
  the same.
\<close>

definition sandbox :: "sandbox_world \<Rightarrow> string \<Rightarrow> string list \<Rightarrow> exec_options
    \<Rightarrow> raw_result promise \<times> effect list" where
  "sandbox w command args opts =
     (if sandboxType w = ''none'' then execute command args opts (direct_events w)
      else
        (let execPath = path_dirname command;
             execName = path_basename command;
             timeout = effectiveTimeoutMs opts;
             (started, fx1) = execute ''docker'' (docker_run_args execPath execName args)
                                no_options (run_events w)
         in case started of
              Pending \<Rightarrow> (Pending, fx1)
            | Rejected e \<Rightarrow> (Rejected e, fx1)
            | Resolved result \<Rightarrow>
                (let containerId = trim (stdout result);
                     early = (if failed result \<and> containerId \<noteq> []
                              then Rejected (RejCleared
                                     \<lparr>status = status result, signal = signal result,
                                      stdout = [], stderr = [], okToCache = okToCache result\<rparr>)
                              else Pending);
                     (p, fx2) = sandbox_wait w containerId timeout opts
                 in (first_settled early p, fx1 @ fx2))))"

text \<open>\<open>execBinary\<close>; \<open>parse\<close> stands for \<open>utils.parseOutput\<close>.\<close>

definition execBinary :: "(string \<Rightarrow> string option \<Rightarrow> out_line list) \<Rightarrow> sandbox_world \<Rightarrow> string
    \<Rightarrow> compile_result \<Rightarrow> nat \<Rightarrow> compile_result promise \<times> effect list" where
  "execBinary parse w executable result maxSize =
     (case sandbox w executable []
             (no_options\<lparr>maxOutput := Some maxSize, timeoutMs := Some 60000\<rparr>) of
        (Resolved r, fx) \<Rightarrow>
          (Resolved (result\<lparr>execResult := Some (ExecRan
              \<lparr>status = status r, signal = signal r, stdout = parse (stdout r) None,
               stderr = parse (stderr r) None, okToCache = okToCache r\<rparr>)\<rparr>),
           Sandbox executable # fx)
      | (Rejected e, fx) \<Rightarrow>
          (Resolved (result\<lparr>execResult := Some (ExecFailed
              \<lparr>status = None, signal = None, stdout = [], stderr = rej_message e\<rparr>)\<rparr>),
           Sandbox executable # fx)
      | (Pending, fx) \<Rightarrow> (Pending, Sandbox executable # fx))"


section \<open>The registry: fetching the compilers of a peer\<close>

text \<open>
  \<open>retryPromise\<close>. \<open>promiseFunc\<close> is called once per attempt; its argument here is the
  number of attempts that failed before, and its value is how the promise it returns
  settles, with what the call did. \<open>fails\<close> is the counter of the source.
\<close>

function retryPromise :: "(nat \<Rightarrow> 'a promise \<times> effect list) \<Rightarrow> int \<Rightarrow> int \<Rightarrow> nat
    \<Rightarrow> 'a promise \<times> effect list" where
  "retryPromise promiseFunc maxFails retryMs fails =
     (case promiseFunc fails of
        (Resolved arg, fx) \<Rightarrow> (Resolved arg, fx)
      | (Pending, fx) \<Rightarrow> (Pending, fx)
      | (Rejected e, fx) \<Rightarrow>
          if int (fails + 1) < maxFails
          then (case retryPromise promiseFunc maxFails retryMs (fails + 1) of
                  (p, fx') \<Rightarrow> (p, fx @ SetTimeout retryMs # fx'))
          else (Rejected e, fx))"
  by pat_completeness auto
termination
  by (relation "measure (\<lambda>(promiseFunc, maxFails, retryMs, fails). nat (maxFails - int fails))") auto

declare retryPromise.simps [simp del]

text \<open>
  How one HTTP exchange with a peer ends: a body that decodes to a list of descriptors,
  a body that does not (the exception leaves the response handler uncaught and the
  promise is never settled), an \<open>'error'\<close> event, a \<open>'timeout'\<close> event, or nothing at all.
\<close>

datatype http_outcome =
    Body "descriptor list"
  | BadBody
  | HttpError js_error
  | HttpTimeout
  | NoAnswer

text \<open>\<open>"" + port\<close> for the result of \<open>parseInt\<close>.\<close>

definition port_text :: "js_number \<Rightarrow> string" where
  "port_text port = number_text port"

definition remote_url :: "string \<Rightarrow> js_number \<Rightarrow> string" where
  "remote_url host port = ''http://'' @ host @ '':'' @ port_text port"

text \<open>One attempt: the request, and the promise built around it.\<close>

definition fetch_attempt :: "string \<Rightarrow> js_number \<Rightarrow> http_outcome \<Rightarrow> descriptor list promise \<times> effect list" where
  "fetch_attempt host port outcome =
     (case outcome of
        Body compilers \<Rightarrow>
          Resolved (map (\<lambda>compiler. compiler\<lparr>exe := None, remote := Some (remote_url host port)\<rparr>)
                      compilers)
      | BadBody \<Rightarrow> Pending
      | HttpError e \<Rightarrow> Rejected (RejError e)
      | HttpTimeout \<Rightarrow> Rejected (RejString ''timeout'')
      | NoAnswer \<Rightarrow> Pending,
      [HttpGet host port ''/api/compilers''])"

text \<open>\<open>fetchRemote\<close>; \<open>peer n\<close> is how the exchange of attempt \<open>n\<close> ends.\<close>

definition fetchRemote :: "(nat \<Rightarrow> http_outcome) \<Rightarrow> string \<Rightarrow> js_number \<Rightarrow> int \<Rightarrow> int
    \<Rightarrow> descriptor list promise \<times> effect list" where
  "fetchRemote peer host port proxyRetries proxyRetryMs =
     (case retryPromise (\<lambda>n. fetch_attempt host port (peer n)) proxyRetries proxyRetryMs 0 of
        (Rejected e, fx) \<Rightarrow> (Resolved [], fx)
      | (p, fx) \<Rightarrow> (p, fx))"

text \<open>
  The configuration and the network as \<open>recurseGetCompilers\<close> sees them: the properties
  \<open>proxyRetries\<close> and \<open>proxyRetryMs\<close>, the peers, and the tokens that are not peers
  (groups, \<open>AWS\<close>, local compilers), whose resolution is not modelled.
\<close>

record registry_world =
  proxyRetries :: int
  proxyRetryMs :: int
  peers :: "string \<Rightarrow> js_number \<Rightarrow> nat \<Rightarrow> http_outcome"
  other_token :: "string \<Rightarrow> descriptor list promise \<times> effect list"

definition fetchCompilersFromRemote :: bool where
  "fetchCompilersFromRemote = True"

definition recurseGetCompilers :: "registry_world \<Rightarrow> string \<Rightarrow> descriptor list promise \<times> effect list" where
  "recurseGetCompilers w token =
     (if fetchCompilersFromRemote \<and> CHR ''@'' \<in> set token then
        (case split_on CHR ''@'' token of
           host # portText # others \<Rightarrow>
             fetchRemote (peers w host (parseInt portText)) host (parseInt portText)
               (proxyRetries w) (proxyRetryMs w)
         | _ \<Rightarrow> other_token w token)
      else other_token w token)"

text \<open>\<open>Promise.all\<close> over promises that have all been started.\<close>

fun promise_all :: "('a promise \<times> effect list) list \<Rightarrow> 'a list promise \<times> effect list" where
  "promise_all [] = (Resolved [], [])"
| "promise_all ((p, fx) # rest) =
     (case promise_all rest of
        (q, fx') \<Rightarrow>
          ((case p of
              Rejected e \<Rightarrow> Rejected e
            | Resolved a \<Rightarrow>
                (case q of Resolved as \<Rightarrow> Resolved (a # as) | Rejected e \<Rightarrow> Rejected e
                 | Pending \<Rightarrow> Pending)
            | Pending \<Rightarrow> (case q of Rejected e \<Rightarrow> Rejected e | _ \<Rightarrow> Pending)),
           fx @ fx'))"

text \<open>The first two steps of \<open>findCompilers\<close>: one promise per seed token, then \<open>_.flatten\<close>.\<close>

definition seed_compilers :: "registry_world \<Rightarrow> string list \<Rightarrow> descriptor list promise \<times> effect list" where
  "seed_compilers w exes =
     (case promise_all (map (recurseGetCompilers w) exes) of
        (Resolved found, fx) \<Rightarrow> (Resolved (concat found), fx)
      | (Rejected e, fx) \<Rightarrow> (Rejected e, fx)
      | (Pending, fx) \<Rightarrow> (Pending, fx))"


section \<open>The cache key\<close>

text \<open>
  The values \<open>JSON.stringify\<close> meets in the key: strings, booleans, \<open>null\<close>, arrays and
  objects, and \<open>undefined\<close>, which is left out of an object and printed as \<open>null\<close> in
  an array.
\<close>

datatype json = JUndefined | JNull | JBool bool | JString string | JArray "json list"
  | JObject "(string \<times> json) list"

definition hex_digit :: "nat \<Rightarrow> char" where
  "hex_digit d = ''0123456789abcdef'' ! d"

definition json_escape :: "char \<Rightarrow> string" where
  "json_escape c =
     (if c = CHR 0x22 then [CHR 0x5C, CHR 0x22]
      else if c = CHR 0x5C then [CHR 0x5C, CHR 0x5C]
      else if c = CHR 0x08 then [CHR 0x5C, CHR ''b'']
      else if c = CHR 0x0C then [CHR 0x5C, CHR ''f'']
      else if c = CHR 0x0A then [CHR 0x5C, CHR ''n'']
      else if c = CHR 0x0D then [CHR 0x5C, CHR ''r'']
      else if c = CHR 0x09 then [CHR 0x5C, CHR ''t'']
      else if (of_char c :: nat) < 32
        then [CHR 0x5C, CHR ''u'', CHR ''0'', CHR ''0'', hex_digit (of_char c div 16),
              hex_digit (of_char c mod 16)]
      else [c])"

definition json_quote :: "string \<Rightarrow> string" where
  "json_quote s = [CHR 0x22] @ concat (map json_escape s) @ [CHR 0x22]"

fun stringify :: "json \<Rightarrow> string option" where
  "stringify JUndefined = None"
| "stringify JNull = Some ''null''"
| "stringify (JBool b) = Some (if b then ''true'' else ''false'')"
| "stringify (JString s) = Some (json_quote s)"
| "stringify (JArray xs) =
     Some (''['' @ join '','' (map (\<lambda>x. case stringify x of None \<Rightarrow> ''null'' | Some s \<Rightarrow> s) xs)
           @ '']'')"
| "stringify (JObject ps) =
     Some (''{'' @ join '',''
             (concat (map (\<lambda>(k, v). case stringify v of None \<Rightarrow> []
                                     | Some s \<Rightarrow> [json_quote k @ '':'' @ s]) ps))
           @ ''}'')"

definition json_opt :: "string option \<Rightarrow> json" where
  "json_opt x = (case x of None \<Rightarrow> JUndefined | Some s \<Rightarrow> JString s)"

definition json_flags :: "flags \<Rightarrow> json" where
  "json_flags obj = JObject (map (\<lambda>(k, v). (k, JBool v)) (own_properties obj))"

text \<open>
  The descriptor as an object: the properties the registry writes, in its order, then
  \<open>version\<close>, which \<open>initialise\<close> adds, then what the argument parser adds. \<open>exe\<close> is
  \<open>null\<close> when absent; the other absent properties are \<open>undefined\<close>.
\<close>

definition json_descriptor :: "descriptor \<Rightarrow> json" where
  "json_descriptor c =
     JObject
      [(''id'', JString (compilerId c)),
       (''exe'', (case exe c of None \<Rightarrow> JNull | Some e \<Rightarrow> JString e)),
       (''name'', JString (name c)),
       (''alias'', json_opt (aliasName c)),
       (''options'', json_opt (options c)),
       (''versionFlag'', json_opt (versionFlag c)),
       (''versionRe'', json_opt (versionRe c)),
       (''compilerType'', JString (compilerType c)),
       (''demangler'', JString (demangler c)),
       (''objdumper'', JString (objdumper c)),
       (''intelAsm'', JString (intelAsm c)),
       (''needsMulti'', JBool (needsMulti c)),
       (''supportsBinary'', JBool (supportsBinary c)),
       (''supportsExecute'', JBool (supportsExecute c)),
       (''supportsIntelAsm'', JBool (supportsIntelAsm c)),
       (''postProcess'', JArray (map JString (postProcess c))),
       (''version'', json_opt (version c)),
       (''optArg'', json_opt (optArg c)),
       (''supportsOptOutput'', (if supportsOptOutput c then JBool True else JUndefined)),
       (''remote'', json_opt (remote c))]"

text \<open>The \<open>key\<close> of \<open>compile\<close>.\<close>

definition cache_key :: "descriptor \<Rightarrow> string \<Rightarrow> string list \<Rightarrow> flags option \<Rightarrow> flags \<Rightarrow> string" where
  "cache_key compiler src opts backendOptions filters =
     (case stringify (JObject
             [(''compiler'', json_descriptor compiler),
              (''source'', JString src),
              (''options'', JArray (map JString opts)),
              (''backendOptions'', (case backendOptions of None \<Rightarrow> JUndefined
                                    | Some b \<Rightarrow> json_flags b)),
              (''filters'', json_flags filters)]) of
        Some s \<Rightarrow> s
      | None \<Rightarrow> [])"

section \<open>The compiler driver: \<open>compile\<close>\<close>

text \<open>
  Everything \<open>compile\<close> reads from its surroundings: the environment object (forbidden
  options, cache, properties), the modules that are used but not modelled (line
  splitting, output parsing, the assembly parser, the control-flow graph, the opt-record
  and syntax-tree readers), the file system, and the child processes, each given by its
  events.
\<close>

record world =
  findBadOptions :: "string list \<Rightarrow> string list"
  cacheGet :: "string \<Rightarrow> compile_result option"
  stubRe_matches :: "string \<Rightarrow> bool"
  stubText :: string
  compileFilename :: string
  compileTimeoutMs :: nat
  max_error_output :: nat
  compiler_wrapper :: "string option"
  max_asm_size :: nat
  max_executable_output_size :: nat
  splitLines :: "string \<Rightarrow> string list"
  parseOutput :: "string \<Rightarrow> string option \<Rightarrow> out_line list"
  asm_process :: "asm_value option \<Rightarrow> flags \<Rightarrow> asm_line list"
  generateCfgStructure :: "asm_value option \<Rightarrow> string"
  couldSupportASTDump :: "string option \<Rightarrow> bool"
  processAstOutput :: "out_line list \<Rightarrow> string"
  mkdir_result :: "string + string"
  writeFile_error :: "js_error option"
  stat_result :: "nat option"
  readFile_result :: "js_error + string"
  opt_yaml_exists :: bool
  opt_records :: string
  opt_demangled :: "string \<Rightarrow> string option"
  main_events :: "child_event list"
  ast_events :: "child_event list"
  objdump_events :: "child_event list"
  postprocess_events :: "child_event list"
  demangle_events :: "child_event list"
  optdemangle_events :: "child_event list"
  sandboxing :: sandbox_world

text \<open>\<open>.then\<close> on a promise with the effects that led to it.\<close>

definition then_p :: "'a promise \<times> effect list \<Rightarrow> ('a \<Rightarrow> 'b promise \<times> effect list)
    \<Rightarrow> 'b promise \<times> effect list" where
  "then_p m f =
     (case m of
        (Resolved a, fx) \<Rightarrow> (case f a of (q, fx') \<Rightarrow> (q, fx @ fx'))
      | (Rejected e, fx) \<Rightarrow> (Rejected e, fx)
      | (Pending, fx) \<Rightarrow> (Pending, fx))"

definition checkOptions :: "world \<Rightarrow> string list \<Rightarrow> string option" where
  "checkOptions w opts =
     (let error = findBadOptions w opts
      in if length error > 0 then Some (''Bad options: '' @ join '', '' error) else None)"

text \<open>Binary output is not produced for a compiler that does not support it.\<close>

definition clear_binary :: "descriptor \<Rightarrow> flags \<Rightarrow> flags" where
  "clear_binary compiler filters =
     (if flag filters ''binary'' \<and> \<not> supportsBinary compiler
      then delete_key ''binary'' filters else filters)"

definition getDefaultExecOptions :: "world \<Rightarrow> exec_options" where
  "getDefaultExecOptions w =
     no_options\<lparr>timeoutMs := Some (compileTimeoutMs w),
       maxErrorOutput := Some (max_error_output w), wrapper := compiler_wrapper w\<rparr>"

text \<open>The exception of a call on \<open>undefined\<close> or \<open>null\<close>.\<close>

definition type_error :: js_error where
  "type_error = \<lparr>code = None, message = ''TypeError''\<rparr>"

definition parsed :: "world \<Rightarrow> string option \<Rightarrow> raw_result \<Rightarrow> (out_line list, out_line list) exec_result" where
  "parsed w inputFilename r =
     \<lparr>status = status r, signal = signal r, stdout = parseOutput w (stdout r) inputFilename,
      stderr = parseOutput w (stderr r) inputFilename, okToCache = okToCache r\<rparr>"

definition runCompiler :: "world \<Rightarrow> string option \<Rightarrow> string list \<Rightarrow> string \<Rightarrow> exec_options
    \<Rightarrow> child_event list \<Rightarrow> (out_line list, out_line list) exec_result promise \<times> effect list" where
  "runCompiler w compilerExe args inputFilename execOptions evs =
     (case compilerExe of
        None \<Rightarrow> (Rejected (RejError type_error), [])
      | Some command \<Rightarrow>
          then_p (execute command args execOptions evs)
            (\<lambda>r. (Resolved (parsed w (Some inputFilename) r), [])))"

definition supportsObjdump :: "descriptor \<Rightarrow> bool" where
  "supportsObjdump compiler = (objdumper compiler \<noteq> [])"

text \<open>\<open>node_util.format("%d", status)\<close>.\<close>

definition format_d :: "int option \<Rightarrow> string" where
  "format_d x = (case x of None \<Rightarrow> ''0'' | Some i \<Rightarrow> show_int i)"

definition objdump :: "world \<Rightarrow> descriptor \<Rightarrow> string \<Rightarrow> compile_result \<Rightarrow> nat \<Rightarrow> bool \<Rightarrow> bool
    \<Rightarrow> compile_result promise \<times> effect list" where
  "objdump w compiler outputFilename result maxSize intelSyntax demangle =
     (let args = [''-d'', outputFilename, ''-l'', ''--insn-width=16''];
          args = (if demangle then args @ [''-C''] else args);
          args = (if intelSyntax then args @ [''-M'', ''intel''] else args)
      in then_p (execute (objdumper compiler) args (no_options\<lparr>maxOutput := Some maxSize\<rparr>)
                   (objdump_events w))
           (\<lambda>objResult.
              (Resolved (result\<lparr>asm := Some (AsmString
                 (if truthy_str (signal objResult)
                  then ''<objdump failed due to '' @ str_or_empty (signal objResult) @ ''>''
                  else if status objResult \<noteq> Some 0
                  then ''<objdump exited with status '' @ format_d (status objResult) @ ''>''
                  else stdout objResult))\<rparr>), [])))"

definition handlePostProcessResult :: "compile_result \<Rightarrow> raw_result \<Rightarrow> compile_result" where
  "handlePostProcessResult result postResult =
     result\<lparr>asm := Some (AsmString
       (if truthy_str (signal postResult)
        then ''<Error during post processing: '' @ str_or_empty (signal postResult) @ ''>''
        else if status postResult \<noteq> Some 0
        then ''<Error during post processing: status '' @ format_d (status postResult) @ ''>''
        else stdout postResult))\<rparr>"

text \<open>
  \<open>processOptOutput\<close>: the records of the \<open>.opt.yaml\<close> file that belong to the input
  file, sent through the demangler if there is one; it always resolves.
\<close>

definition processOptOutput :: "world \<Rightarrow> descriptor \<Rightarrow> string promise \<times> effect list" where
  "processOptOutput w compiler =
     (if demangler compiler \<noteq> [] then
        (case execute (demangler compiler) [''-n'', ''-p'']
                (no_options\<lparr>input := Some (opt_records w)\<rparr>) (optdemangle_events w) of
           (Resolved r, fx) \<Rightarrow>
             (Resolved (case opt_demangled w (stdout r) of None \<Rightarrow> opt_records w | Some d \<Rightarrow> d), fx)
         | (Rejected e, fx) \<Rightarrow> (Resolved (opt_records w), fx)
         | (Pending, fx) \<Rightarrow> (Pending, fx))
      else (Resolved (opt_records w), []))"

text \<open>What \<open>compileToAsmPromise\<close> resolves to: the result alone, or the array of \<open>postProcess\<close>.\<close>

datatype stage_result = Single compile_result | Triple compile_result string

text \<open>The assembly branch of \<open>postProcess\<close> when objdump is not used.\<close>

definition read_output :: "world \<Rightarrow> descriptor \<Rightarrow> string \<Rightarrow> compile_result \<Rightarrow> nat
    \<Rightarrow> compile_result promise \<times> effect list" where
  "read_output w compiler outputFilename result maxSize =
     (case stat_result w of
        None \<Rightarrow> (Resolved (result\<lparr>asm := Some (AsmString ''<No output file>'')\<rparr>), [])
      | Some sz \<Rightarrow>
          if sz \<ge> maxSize then
            (Resolved (result\<lparr>asm := Some (AsmString
               (''<No output: generated assembly was too large ('' @ show_nat sz @ '' > ''
                  @ show_nat maxSize @ '' bytes)>''))\<rparr>), [])
          else if length (filter (\<lambda>x. x \<noteq> []) (postProcess compiler)) > 0 then
            then_p (execute ''bash''
                      [''-c'', ''cat '' @ [CHR 0x22] @ outputFilename @ [CHR 0x22] @ '' | ''
                               @ join '' | '' (filter (\<lambda>x. x \<noteq> []) (postProcess compiler))]
                      (no_options\<lparr>maxOutput := Some maxSize\<rparr>) (postprocess_events w))
              (\<lambda>postResult. (Resolved (handlePostProcessResult result postResult), []))
          else
            (case readFile_result w of
               Inl e \<Rightarrow> (Rejected (RejError e), [])
             | Inr contents \<Rightarrow> (Resolved (result\<lparr>asm := Some (AsmString contents)\<rparr>), [])))"

text \<open>
  \<open>postProcess\<close>. The assembly promise and the execution promise work on one and the
  same result object; the array resolves when both and the opt-record promise have.
\<close>

definition postProcess_results :: "world \<Rightarrow> descriptor \<Rightarrow> compile_result \<Rightarrow> string \<Rightarrow> flags
    \<Rightarrow> stage_result promise \<times> effect list" where
  "postProcess_results w compiler result outputFilename filters =
     (let maxSize = max_asm_size w;
          (optPromise, fxo) = (if hasOptOutput result = Some True then processOptOutput w compiler
                               else (Resolved [], []));
          (asmPromise, fxa) = (if flag filters ''binary'' \<and> supportsObjdump compiler
                               then objdump w compiler outputFilename result maxSize
                                      (flag filters ''intel'') (flag filters ''demangle'')
                               else read_output w compiler outputFilename result maxSize);
          (execPromise, fxe) = (if supportsExecute compiler \<and> flag filters ''binary''
                                   \<and> flag filters ''link'' \<and> flag filters ''execute''
                                then execBinary (parseOutput w) (sandboxing w) outputFilename result
                                       (max_executable_output_size w)
                                else (Resolved result, []))
      in ((case asmPromise of
             Rejected e \<Rightarrow> Rejected e
           | Pending \<Rightarrow> Pending
           | Resolved withAsm \<Rightarrow>
               (case optPromise of
                  Rejected e \<Rightarrow> Rejected e
                | Pending \<Rightarrow> Pending
                | Resolved optOut \<Rightarrow>
                    (case execPromise of
                       Rejected e \<Rightarrow> Rejected e
                     | Pending \<Rightarrow> Pending
                     | Resolved withExec \<Rightarrow>
                         Resolved (Triple (withAsm\<lparr>execResult := execResult withExec\<rparr>) optOut)))),
          fxo @ fxa @ fxe))"

definition optOutputRequested :: "string list \<Rightarrow> bool" where
  "optOutputRequested opts = (''-fsave-optimization-record'' \<in> set opts)"

text \<open>The handler that runs when the main compile and the syntax-tree promise have resolved.\<close>

definition after_compile :: "world \<Rightarrow> descriptor \<Rightarrow> flags \<Rightarrow> string \<Rightarrow> string \<Rightarrow> string list
    \<Rightarrow> (out_line list, out_line list) exec_result \<Rightarrow> string \<Rightarrow> stage_result promise \<times> effect list" where
  "after_compile w compiler filters dirName outputFilename opts r astResult =
     (let asmResult =
            \<lparr>status = status r, signal = signal r, stdout = stdout r, stderr = stderr r,
             okToCache = okToCache r, dirPath = Some dirName, asm = None,
             output_file_path = None, hasOptOutput = None, optPath = None,
             hasAstOutput = None, astOutput = None, execResult = None, optOutput = None,
             supportsCfg = None, cfg = None\<rparr>
      in if failed asmResult then
           (Resolved (Single (asmResult\<lparr>asm := Some (AsmString ''<Compilation failed>'')\<rparr>)), [])
         else
           (let asmResult = asmResult\<lparr>output_file_path := Some outputFilename,
                              hasOptOutput := Some False\<rparr>;
                asmResult = (if supportsOptOutput compiler \<and> optOutputRequested opts
                                \<and> opt_yaml_exists w
                             then asmResult\<lparr>hasOptOutput := Some True,
                                    optPath := Some (path_join dirName ''output.opt.yaml'')\<rparr>
                             else asmResult);
                asmResult = (if astResult \<noteq> []
                             then asmResult\<lparr>hasAstOutput := Some True, astOutput := Some astResult\<rparr>
                             else asmResult)
            in postProcess_results w compiler asmResult outputFilename filters))"

text \<open>\<open>generateAST\<close>: a second run of the compiler with a larger cap.\<close>

definition generateAST :: "world \<Rightarrow> descriptor \<Rightarrow> string \<Rightarrow> string list \<Rightarrow> string promise \<times> effect list" where
  "generateAST w compiler inputFilename opts =
     then_p (runCompiler w (exe compiler) (opts @ [''-Xclang'', ''-ast-dump'', ''-fsyntax-only''])
               (filename inputFilename)
               ((getDefaultExecOptions w)\<lparr>maxOutput := Some (1024 * 1024 * 1024)\<rparr>)
               (ast_events w))
       (\<lambda>output. (Resolved (processAstOutput w (stdout output)), []))"

text \<open>\<open>Promise.all\<close> of two promises that have both been started.\<close>

definition both :: "'a promise \<times> effect list \<Rightarrow> 'b promise \<times> effect list
    \<Rightarrow> ('a \<times> 'b) promise \<times> effect list" where
  "both m n =
     ((case fst m of
         Rejected e \<Rightarrow> Rejected e
       | Pending \<Rightarrow> (case fst n of Rejected e \<Rightarrow> Rejected e | _ \<Rightarrow> Pending)
       | Resolved a \<Rightarrow>
           (case fst n of Rejected e \<Rightarrow> Rejected e | Pending \<Rightarrow> Pending
            | Resolved b \<Rightarrow> Resolved (a, b))),
      snd m @ snd n)"

text \<open>The syntax-tree promise.\<close>

definition ast_promise :: "world \<Rightarrow> descriptor \<Rightarrow> flags option \<Rightarrow> string \<Rightarrow> string list
    \<Rightarrow> string promise \<times> effect list" where
  "ast_promise w compiler backendOptions inputFilename opts =
     (if (case backendOptions of None \<Rightarrow> False | Some b \<Rightarrow> flag b ''produceAst'')
      then (if couldSupportASTDump w (version compiler)
            then generateAST w compiler inputFilename opts
            else (Resolved ''AST output is only supported in Clang >= 3.3'', []))
      else (Resolved [], []))"

text \<open>
  The array that \<open>execute\<close> leaves behind: with a wrapper it has put the compiler in
  front of the very array that is then handed to \<open>generateAST\<close>.
\<close>

definition args_after_run :: "world \<Rightarrow> descriptor \<Rightarrow> string list \<Rightarrow> string list" where
  "args_after_run w compiler args =
     (case exe compiler of
        None \<Rightarrow> args
      | Some command \<Rightarrow> snd (spawn_line command args (getDefaultExecOptions w)))"

text \<open>\<open>compileToAsmPromise\<close> once the directory and the input file exist.\<close>

definition compile_in_dir :: "world \<Rightarrow> descriptor \<Rightarrow> string list \<Rightarrow> flags option \<Rightarrow> flags \<Rightarrow> string
    \<Rightarrow> stage_result promise \<times> effect list" where
  "compile_in_dir w compiler opts backendOptions filters dirName =
     (let inputFilename = path_join dirName (compileFilename w);
          outputFilename = path_join dirName ''output'';
          args = truthy_args (prepareArguments compiler opts filters backendOptions
                    inputFilename outputFilename)
      in then_p (both (runCompiler w (exe compiler) args (filename inputFilename)
                         (getDefaultExecOptions w) (main_events w))
                      (ast_promise w compiler backendOptions inputFilename
                         (args_after_run w compiler args)))
           (\<lambda>(asmResult, astResult).
              after_compile w compiler filters dirName outputFilename
                (args_after_run w compiler args) asmResult astResult))"

text \<open>\<open>compileToAsmPromise\<close>, from the temporary directory to the array of \<open>postProcess\<close>.\<close>

definition compileToAsm :: "world \<Rightarrow> descriptor \<Rightarrow> string \<Rightarrow> string list \<Rightarrow> flags option \<Rightarrow> flags
    \<Rightarrow> stage_result promise \<times> effect list" where
  "compileToAsm w compiler src opts backendOptions filters =
     (case mkdir_result w of
        Inl err \<Rightarrow> (Rejected (RejString (''Unable to open temp file: '' @ err)), [MkTempDir])
      | Inr dirName \<Rightarrow>
          (case writeFile_error w of
             Some e \<Rightarrow>
               (Rejected (RejError e),
                [MkTempDir, WriteFile (path_join dirName (compileFilename w)) src])
           | None \<Rightarrow>
               (case compile_in_dir w compiler opts backendOptions filters dirName of
                  (p, fx) \<Rightarrow>
                    (p, MkTempDir # WriteFile (path_join dirName (compileFilename w)) src # fx))))"

text \<open>
  First \<open>then\<close> of the chain: unpack the array, run the assembly parser on a result that
  may be cached, wrap the raw assembly and drop the directory of one that may not.
\<close>

definition unpack_result :: "world \<Rightarrow> flags \<Rightarrow> stage_result \<Rightarrow> compile_result promise \<times> effect list" where
  "unpack_result w filters results =
     (let (result, optOut) = (case results of Single r \<Rightarrow> (r, None) | Triple r out \<Rightarrow> (r, Some out));
          (result, fx) =
             (if okToCache result
              then (result\<lparr>asm := Some (AsmLines (asm_process w (asm result) filters))\<rparr>, [])
              else (case dirPath result of
                      Some d \<Rightarrow>
                        if d \<noteq> []
                        then (result\<lparr>asm := Some (AsmWrapped (asm result)), dirPath := None\<rparr>,
                              [RemoveDir d])
                        else (result\<lparr>asm := Some (AsmWrapped (asm result))\<rparr>, [])
                    | None \<Rightarrow> (result\<lparr>asm := Some (AsmWrapped (asm result))\<rparr>, [])));
          result = (if hasOptOutput result = Some True
                    then result\<lparr>optPath := None, optOutput := optOut\<rparr> else result)
      in (Resolved result, fx))"

text \<open>\<open>postProcessAsm\<close>: the demangler, line by line.\<close>

fun splice_lines :: "string list \<Rightarrow> asm_line list \<Rightarrow> asm_line list" where
  "splice_lines ls [] = []"
| "splice_lines [] (a # as) = a\<lparr>line_text := None\<rparr> # splice_lines [] as"
| "splice_lines (l # ls) (a # as) = a\<lparr>line_text := Some l\<rparr> # splice_lines ls as"

definition asm_texts :: "asm_value option \<Rightarrow> string list" where
  "asm_texts a = (case a of Some (AsmLines ls) \<Rightarrow> map (\<lambda>l. str_or_empty (line_text l)) ls | _ \<Rightarrow> [])"

definition postProcessAsm :: "world \<Rightarrow> descriptor \<Rightarrow> compile_result
    \<Rightarrow> compile_result promise \<times> effect list" where
  "postProcessAsm w compiler result =
     (if \<not> okToCache result then (Resolved result, [])
      else if demangler compiler = [] then (Resolved result, [])
      else then_p (execute (demangler compiler) []
                     (no_options\<lparr>input := Some (join [CHR 0x0A] (asm_texts (asm result)))\<rparr>)
                     (demangle_events w))
             (\<lambda>demangleResult.
                (Resolved (result\<lparr>asm := (case asm result of
                     Some (AsmLines ls) \<Rightarrow>
                       Some (AsmLines (splice_lines (splitLines w (stdout demangleResult)) ls))
                   | other \<Rightarrow> other)\<rparr>), [])))"

definition isCfgCompiler :: "string \<Rightarrow> bool" where
  "isCfgCompiler compilerVersion =
     (includes_str compilerVersion ''clang'' \<or> starts_with compilerVersion ''g++'')"

text \<open>The \<open>then\<close> that adds the control-flow graph.\<close>

definition add_cfg :: "world \<Rightarrow> descriptor \<Rightarrow> flags \<Rightarrow> compile_result
    \<Rightarrow> compile_result promise \<times> effect list" where
  "add_cfg w compiler filters result =
     (let result = result\<lparr>supportsCfg := Some False\<rparr>
      in if status result = Some 0 \<and> \<not> flag filters ''binary'' then
           (case version compiler of
              None \<Rightarrow> (Rejected (RejError type_error), [])
            | Some v \<Rightarrow>
                if isCfgCompiler v
                then (Resolved (result\<lparr>cfg := Some (generateCfgStructure w (asm result)),
                                  supportsCfg := Some True\<rparr>), [])
                else (Resolved result, []))
         else (Resolved result, []))"

text \<open>The last \<open>then\<close>: the cache.\<close>

definition cache_result :: "string \<Rightarrow> compile_result \<Rightarrow> compile_result promise \<times> effect list" where
  "cache_result key result =
     (Resolved result, if okToCache result then [CachePut key result] else [])"

text \<open>The chain of \<open>then\<close>s up to the cache, and the job that \<open>compile\<close> hands to the queue.\<close>

definition compile_chain :: "world \<Rightarrow> descriptor \<Rightarrow> string \<Rightarrow> string list \<Rightarrow> flags option \<Rightarrow> flags
    \<Rightarrow> compile_result promise \<times> effect list" where
  "compile_chain w compiler src opts backendOptions filters =
     then_p (then_p (then_p (compileToAsm w compiler src opts backendOptions filters)
                       (unpack_result w filters))
               (\<lambda>result. if flag filters ''demangle'' then postProcessAsm w compiler result
                         else (Resolved result, [])))
       (add_cfg w compiler filters)"

definition compile_job :: "world \<Rightarrow> descriptor \<Rightarrow> string \<Rightarrow> string \<Rightarrow> string list \<Rightarrow> flags option
    \<Rightarrow> flags \<Rightarrow> compile_result promise \<times> effect list" where
  "compile_job w compiler key src opts backendOptions filters =
     then_p (compile_chain w compiler src opts backendOptions filters) (cache_result key)"

text \<open>\<open>compile\<close>. The queue runs every job it is given.\<close>

definition compile :: "world \<Rightarrow> descriptor \<Rightarrow> string \<Rightarrow> string list \<Rightarrow> flags option \<Rightarrow> flags
    \<Rightarrow> compile_result promise \<times> effect list" where
  "compile w compiler src opts backendOptions filters =
     (case checkOptions w opts of
        Some optionsError \<Rightarrow> (Rejected (RejString optionsError), [])
      | None \<Rightarrow>
          (case checkSource (splitLines w) src of
             Some sourceError \<Rightarrow> (Rejected (RejString sourceError), [])
           | None \<Rightarrow>
               (let filters = clear_binary compiler filters;
                    key = cache_key compiler src opts backendOptions filters
                in case cacheGet w key of
                     Some cached \<Rightarrow> (Resolved cached, [CacheGet key])
                   | None \<Rightarrow>
                       (let src = (if flag filters ''binary'' \<and> \<not> stubRe_matches w src
                                   then src @ [CHR 0x0A] @ stubText w @ [CHR 0x0A] else src)
                        in case compile_job w compiler key src opts backendOptions filters of
                             (p, fx) \<Rightarrow> (p, CacheGet key # Enqueue # fx)))))"


section \<open>Invariants of the process runner\<close>




section \<open>Notions used in the properties of the driver\<close>

text \<open>
  The effects of running a child process, and the effects the pipeline may have before
  it reaches the cache; the sandbox is among them only under the given condition.
\<close>

fun plain :: "effect \<Rightarrow> bool" where
  "plain (Spawn c a) = True"
| "plain (StdinWrite i) = True"
| "plain TreeKill = True"
| "plain KillChild = True"
| "plain e = False"

fun allowed :: "bool \<Rightarrow> effect \<Rightarrow> bool" where
  "allowed sb (Sandbox x) = sb"
| "allowed sb (CacheGet k) = False"
| "allowed sb (CachePut k r) = False"
| "allowed sb Enqueue = False"
| "allowed sb (HttpGet h p q) = False"
| "allowed sb (SetTimeout t) = False"
| "allowed sb e = True"

text \<open>Two results agree on exit status, signal and \<open>okToCache\<close>.\<close>

definition same_core :: "('o, 'e, 'y) exec_result_scheme \<Rightarrow> ('o2, 'e2, 'z) exec_result_scheme \<Rightarrow> bool" where
  "same_core r r' \<longleftrightarrow> status r' = status r \<and> signal r' = signal r \<and> okToCache r' = okToCache r"

text \<open>The result object inside what \<open>compileToAsmPromise\<close> resolves to.\<close>

fun result_of :: "stage_result \<Rightarrow> compile_result" where
  "result_of (Single r) = r"
| "result_of (Triple r out) = r"

text \<open>The condition under which \<open>postProcess\<close> runs the binary in the sandbox.\<close>

definition may_execute :: "descriptor \<Rightarrow> flags \<Rightarrow> bool" where
  "may_execute compiler filters \<longleftrightarrow>
     supportsExecute compiler \<and> flag filters ''binary'' \<and> flag filters ''link''
       \<and> flag filters ''execute''"

text \<open>The source that reaches the compiler: the stub is added for binary output.\<close>

definition with_stub :: "world \<Rightarrow> flags \<Rightarrow> string \<Rightarrow> string" where
  "with_stub w filters src =
     (if flag filters ''binary'' \<and> \<not> stubRe_matches w src
      then src @ [CHR 0x0A] @ stubText w @ [CHR 0x0A] else src)"


text \<open>
  What \<open>n\<close> attempts of a retried request leave behind: the request, then for each
  further attempt the timer and the request again.
\<close>

definition attempt_trace :: "effect \<Rightarrow> int \<Rightarrow> nat \<Rightarrow> effect list" where
  "attempt_trace get ms n = get # concat (replicate (n - 1) [SetTimeout ms, get])"

text \<open>An exchange that ends in an \<open>'error'\<close> or a \<open>'timeout'\<close> event.\<close>

definition is_failure :: "http_outcome \<Rightarrow> bool" where
  "is_failure outcome = (case outcome of HttpError e \<Rightarrow> True | HttpTimeout \<Rightarrow> True | _ \<Rightarrow> False)"

section \<open>Notions used in the properties of the cache key\<close>





section \<open>Example inputs\<close>

text \<open>A local clang with optimisation records, as the registry and \<open>initialise\<close> leave it.\<close>

definition example_clang :: descriptor where
  "example_clang =
     \<lparr>compilerId = ''clang4'', exe = Some ''/usr/bin/clang++'', name = ''clang 4.0'',
      aliasName = None, options = Some ''-std=c++14'', versionFlag = None, versionRe = None,
      compilerType = [], demangler = ''c++filt'', objdumper = ''objdump'',
      intelAsm = ''-mllvm --x86-asm-syntax=intel'', needsMulti = True, supportsBinary = True,
      supportsExecute = True, supportsIntelAsm = True, postProcess = [[]],
      version = Some ''clang version 4.0.0'', supportsOptOutput = True,
      optArg = Some ''-fsave-optimization-record'', remote = None\<rparr>"

text \<open>Surroundings in which a compile of a small source succeeds.\<close>

definition example_sandbox :: sandbox_world where
  "example_sandbox =
     \<lparr>sandboxType = ''docker'', direct_events = [],
      run_events = [Data Stderr ''docker: no such image'', Exit, Close (Some 125) None],
      wait_events = [Data Stderr ''Error: No such container'', Exit, Close (Some 1) None],
      logs_events = []\<rparr>"

definition example_world :: world where
  "example_world =
     \<lparr>findBadOptions = filter (\<lambda>opt. starts_with opt ''-fplugin''),
      cacheGet = (\<lambda>key. None),
      stubRe_matches = (\<lambda>src. includes_str src ''main''),
      stubText = ''int main() {}'',
      compileFilename = ''example.cpp'',
      compileTimeoutMs = 100,
      max_error_output = 5000,
      compiler_wrapper = None,
      max_asm_size = 8388608,
      max_executable_output_size = 32768,
      splitLines = split_on CHR 0x0A,
      parseOutput = (\<lambda>out inputFilename. filter (\<lambda>l. l \<noteq> []) (split_on CHR 0x0A out)),
      asm_process = (\<lambda>a filters. case a of
                       Some (AsmString s) \<Rightarrow>
                         map (\<lambda>l. \<lparr>line_text = Some l, line_source = None\<rparr>) (split_on CHR 0x0A s)
                     | _ \<Rightarrow> []),
      generateCfgStructure = (\<lambda>a. ''{}''),
      couldSupportASTDump = (\<lambda>v. True),
      processAstOutput = join [CHR 0x0A],
      mkdir_result = Inr ''/tmp/ce1'',
      writeFile_error = None,
      stat_result = Some 12,
      readFile_result = Inr ''f(): ret'',
      opt_yaml_exists = False,
      opt_records = ''[]'',
      opt_demangled = Some,
      main_events = [Exit, Close (Some 0) None],
      ast_events = [],
      objdump_events = [],
      postprocess_events = [],
      demangle_events = [],
      optdemangle_events = [],
      sandboxing = example_sandbox\<rparr>"

text \<open>The same surroundings with a compiler that fails, and with one that is timed out.\<close>

definition failing_world :: world where
  "failing_world =
     example_world\<lparr>main_events := [Data Stderr ''error: x'', Exit, Close (Some 1) None]\<rparr>"

definition hanging_world :: world where
  "hanging_world =
     example_world\<lparr>main_events := [TimerFired, Exit, Close None (Some ''SIGKILL'')]\<rparr>"

definition example_key :: string where
  "example_key = cache_key example_clang ''int f();'' [''-O2''] None getDefaultFilters"

definition example_spawn :: effect where
  "example_spawn =
     Spawn ''/usr/bin/clang++''
       [''-g'', ''-o'', ''/tmp/ce1/output'', ''-mllvm'', ''--x86-asm-syntax=intel'', ''-S'',
        ''-std=c++14'', ''-O2'', ''/tmp/ce1/example.cpp'']"

definition ok_result :: compile_result where
  "ok_result =
     \<lparr>status = Some 0, signal = None, stdout = [], stderr = [], okToCache = True,
      dirPath = Some ''/tmp/ce1'',
      asm = Some (AsmLines [\<lparr>line_text = Some ''f(): ret'', line_source = None\<rparr>]),
      output_file_path = Some ''/tmp/ce1/output'', hasOptOutput = Some False, optPath = None,
      hasAstOutput = None, astOutput = None, execResult = None, optOutput = None,
      supportsCfg = Some True, cfg = Some ''{}''\<rparr>"

definition failed_result :: compile_result where
  "failed_result =
     \<lparr>status = Some 1, signal = None, stdout = [], stderr = [''error: x''], okToCache = True,
      dirPath = Some ''/tmp/ce1'',
      asm = Some (AsmLines [\<lparr>line_text = Some ''<Compilation failed>'', line_source = None\<rparr>]),
      output_file_path = None, hasOptOutput = None, optPath = None, hasAstOutput = None,
      astOutput = None, execResult = None, optOutput = None, supportsCfg = Some False,
      cfg = None\<rparr>"

definition timed_out_result :: compile_result where
  "timed_out_result =
     \<lparr>status = None, signal = Some ''SIGKILL'', stdout = [],
      stderr = [''Killed - processing time exceeded''], okToCache = False,
      dirPath = None,
      asm = Some (AsmWrapped (Some (AsmString ''<Compilation failed>''))),
      output_file_path = None, hasOptOutput = None, optPath = None, hasAstOutput = None,
      astOutput = None, execResult = None, optOutput = None, supportsCfg = Some False,
      cfg = None\<rparr>"

text \<open>Surroundings in which the binary is disassembled and the sandbox cannot start it.\<close>

definition execute_world :: world where
  "execute_world =
     example_world\<lparr>objdump_events := [Data Stdout ''main: ret'', Exit, Close (Some 0) None]\<rparr>"


text \<open>A registry with the example compiler, and two requests that name no filters.\<close>

definition example_compilers :: "string \<Rightarrow> descriptor option" where
  "example_compilers cid = (if cid = ''clang4'' then Some example_clang else None)"

definition api_request :: request where
  "api_request =
     \<lparr>is_json = False, req_compiler = Some ''clang4'', body_compiler = None, body_source = None,
      body_options = None, body_text = Some ''int f();'', query_options = Some ''-O2'',
      query_filters = None, query_addFilters = None, query_removeFilters = None\<rparr>"

definition json_request :: request where
  "json_request =
     \<lparr>is_json = True, req_compiler = None, body_compiler = Some ''clang4'',
      body_source = Some ''int f();'',
      body_options = Some \<lparr>userArguments = Some ''-O2'', compilerOptions = None,
                           requestFilters = None\<rparr>,
      body_text = None, query_options = None,
      query_filters = None, query_addFilters = None, query_removeFilters = None\<rparr>"

text \<open>
  A registry whose peer answers at the third attempt, and one that is configured with
  \<open>proxyRetries=0\<close> and whose peer never answers.
\<close>

definition example_registry :: registry_world where
  "example_registry =
     \<lparr>proxyRetries = 3, proxyRetryMs = 500,
      peers = (\<lambda>host port n. if host = ''peer'' \<and> port = (Num 10240) \<and> n = 2
                              then Body [example_clang] else HttpTimeout),
      other_token = (\<lambda>token. (Resolved [example_clang], []))\<rparr>"

definition dead_registry :: registry_world where
  "dead_registry =
     \<lparr>proxyRetries = 0, proxyRetryMs = 500,
      peers = (\<lambda>host port n. HttpTimeout),
      other_token = (\<lambda>token. (Resolved [example_clang], []))\<rparr>"

section \<open>Evaluating the string functions\<close>

lemma show_nat_small: "n < 10 \<Longrightarrow> show_nat n = [digit_char n]"
  by (simp add: show_nat.simps)

lemma show_nat_big: "10 \<le> n \<Longrightarrow> show_nat n = show_nat (n div 10) @ [digit_char (n mod 10)]"
  by (subst show_nat.simps) simp


text \<open>Array indices are enumerated first, in ascending order, wherever they were created.\<close>

lemma object_of_order:
  "object_of [(''b'', True), (''10'', True), (''2'', False), (''01'', True), (''2'', True)]
   = [(''2'', True), (''10'', True), (''b'', True), (''01'', True)]"
  by (simp add: object_of_def set_key_def array_index_def before_index_def)

lemma parseInt_rounds: "parseInt ''9007199254740993'' = Num 9007199254740992"
  by (simp add: parseInt_def is_space_def space_chars_def digit_value_def hex_value_def
      to_double_def bit_length.simps Let_def)

section \<open>Properties of the process runner\<close>


























section \<open>Properties of the argument assembly\<close>

text \<open>
  C5, as amended. The argument array is \<open>-g -o <outputPath>\<close>; then the words of the
  intel-asm flag if \<open>filters.intel\<close> is set, \<open>filters.binary\<close> is not and the descriptor
  defines the flag; then \<open>-c\<close> if \<open>filters.binary\<close> is set without \<open>filters.link\<close>, or
  \<open>-S\<close> if \<open>filters.binary\<close> is not set; then the words of the descriptor's default
  options; then the opt-record flag if the descriptor supports opt records and
  \<open>backendOptions.produceOptInfo\<close> is set; then the user options; then the input
  filename. The opt-record flag stands before the user options, not after them.
\<close>

theorem prepareArguments_order:
  "prepareArguments compiler userOptions filters backendOptions inputFilename outputFilename =
     [Some ''-g'', Some ''-o'', Some outputFilename]
     @ (if intelAsm compiler \<noteq> [] \<and> flag filters ''intel'' \<and> \<not> flag filters ''binary''
        then map Some (split_on CHR '' '' (intelAsm compiler)) else [])
     @ (if flag filters ''binary''
        then (if flag filters ''link'' then [] else [Some ''-c''])
        else [Some ''-S''])
     @ (case options compiler of
          Some s \<Rightarrow> if s \<noteq> [] then map Some (split_on CHR '' '' s) else []
        | None \<Rightarrow> [])
     @ (if supportsOptOutput compiler
           \<and> (case backendOptions of Some b \<Rightarrow> flag b ''produceOptInfo'' | None \<Rightarrow> False)
        then [optArg compiler] else [])
     @ map Some userOptions
     @ [Some inputFilename]"
  by (simp add: prepareArguments_def optionsForFilter_def filename_def flag_def Let_def
      split: option.splits)

theorem prepareArguments_order_witness:
  "prepareArguments example_clang [''-O2''] [(''intel'', True)] (Some [(''produceOptInfo'', True)])
       ''/tmp/x/example.cpp'' ''/tmp/x/output''
   = map Some [''-g'', ''-o'', ''/tmp/x/output'', ''-mllvm'', ''--x86-asm-syntax=intel'', ''-S'',
       ''-std=c++14'', ''-fsave-optimization-record'', ''-O2'', ''/tmp/x/example.cpp'']"
  using prepareArguments_order [of example_clang "[''-O2'']" "[(''intel'', True)]"
      "Some [(''produceOptInfo'', True)]" "''/tmp/x/example.cpp''" "''/tmp/x/output''"]
  by (simp add: example_clang_def flag_def)

text \<open>
  C5 as stated fails: with opt records requested, the flag comes out before the user
  option \<open>-O2\<close>, neither right after it nor after the input filename.
\<close>

theorem prepareArguments_order_counterexample:
  "prepareArguments example_clang [''-O2''] [] (Some [(''produceOptInfo'', True)])
       ''/tmp/x/example.cpp'' ''/tmp/x/output''
     = map Some [''-g'', ''-o'', ''/tmp/x/output'', ''-S'', ''-std=c++14'',
         ''-fsave-optimization-record'', ''-O2'', ''/tmp/x/example.cpp'']
   \<and> prepareArguments example_clang [''-O2''] [] (Some [(''produceOptInfo'', True)])
       ''/tmp/x/example.cpp'' ''/tmp/x/output''
     \<noteq> map Some [''-g'', ''-o'', ''/tmp/x/output'', ''-S'', ''-std=c++14'',
         ''-O2'', ''-fsave-optimization-record'', ''/tmp/x/example.cpp'']
   \<and> prepareArguments example_clang [''-O2''] [] (Some [(''produceOptInfo'', True)])
       ''/tmp/x/example.cpp'' ''/tmp/x/output''
     \<noteq> map Some [''-g'', ''-o'', ''/tmp/x/output'', ''-S'', ''-std=c++14'',
         ''-O2'', ''/tmp/x/example.cpp'', ''-fsave-optimization-record'']"
  by (simp add: prepareArguments_def optionsForFilter_def filename_def flag_def
      example_clang_def)


section \<open>Properties of the compile pipeline\<close>

lemma plain_allowed: "plain e \<Longrightarrow> allowed sb e"
  by (cases e) simp_all

lemma list_all_plain_allowed: "list_all plain fx \<Longrightarrow> list_all (allowed sb) fx"
  by (induction fx) (simp_all add: plain_allowed)

lemma kill_plain: "list_all plain (s_effects s) \<Longrightarrow> list_all plain (s_effects (kill opts s))"
  by (simp add: kill_def)

lemma on_data_plain:
  "list_all plain (s_effects s) \<Longrightarrow> list_all plain (s_effects (on_data opts nm d s))"
  by (cases nm) (simp_all add: on_data_def kill_def)

lemma on_timeout_plain:
  "list_all plain (s_effects s) \<Longrightarrow> list_all plain (s_effects (on_timeout opts s))"
  by (simp add: on_timeout_def kill_def)

lemma run_child_plain:
  "list_all plain (s_effects s) \<Longrightarrow> list_all plain (s_effects (snd (run_child opts s evs)))"
  by (induction opts s evs rule: run_child.induct)
     (simp_all add: on_data_plain on_timeout_plain on_exit_def)

lemma execute_plain: "list_all plain (snd (execute command args opts evs))"
proof -
  have "list_all plain (s_effects (snd (exec_run opts evs)))"
    unfolding exec_run_def by (rule run_child_plain) (simp add: initial_state_def)
  then show ?thesis
    by (simp add: execute_def stdin_effects_def split_beta split: option.splits)
qed

lemma snd_then_p:
  "snd (then_p m f) = snd m @ (case fst m of Resolved a \<Rightarrow> snd (f a) | _ \<Rightarrow> [])"
  by (cases m) (auto simp: then_p_def split: promise.splits prod.splits)

lemma fst_then_p:
  "fst (then_p m f) = (case fst m of Resolved a \<Rightarrow> fst (f a) | Rejected e \<Rightarrow> Rejected e | Pending \<Rightarrow> Pending)"
  by (cases m) (auto simp: then_p_def split: promise.splits prod.splits)

lemma list_all_then_p:
  "list_all P (snd m) \<Longrightarrow> (\<And>a. list_all P (snd (f a))) \<Longrightarrow> list_all P (snd (then_p m f))"
  by (simp add: snd_then_p split: promise.splits)

lemma docker_kill_plain: "list_all plain fx \<Longrightarrow> list_all plain (docker_kill containerId fx)"
  by (induction fx) (simp_all add: docker_kill_def)

lemma removeContainer_plain: "list_all plain (removeContainer containerId)"
  by (simp add: removeContainer_def)

lemma sandbox_wait_plain: "list_all plain (snd (sandbox_wait w containerId timeout opts))"
  using execute_plain [of "''docker''" "[''wait'', containerId]"
      "no_options\<lparr>timeoutMs := Some timeout, killChild := True\<rparr>" "wait_events w"]
    execute_plain [of "''docker''" "[''logs'', containerId]" opts "logs_events w"]
  by (auto simp: sandbox_wait_def Let_def split_beta docker_kill_plain removeContainer_plain
      split: promise.splits)

lemma sandbox_plain: "list_all plain (snd (sandbox w command args opts))"
  using execute_plain [of command args opts "direct_events w"]
    execute_plain [of "''docker''" "docker_run_args (path_dirname command) (path_basename command) args"
      no_options "run_events w"]
    sandbox_wait_plain [of w _ "effectiveTimeoutMs opts" opts]
  by (auto simp: sandbox_def Let_def split_beta split: promise.splits)

lemma same_core_refl: "same_core r r"
  by (simp add: same_core_def)

lemma same_core_trans: "same_core a b \<Longrightarrow> same_core b c \<Longrightarrow> same_core a c"
  by (simp add: same_core_def)

lemma execBinary_allowed: "list_all (allowed True) (snd (execBinary parse w x result n))"
  using sandbox_plain [of w x "[]" "no_options\<lparr>maxOutput := Some n, timeoutMs := Some 60000\<rparr>"]
  by (auto simp: execBinary_def list_all_plain_allowed split: prod.splits promise.splits)

lemma execBinary_resolved:
  "fst (execBinary parse w x result n) = Resolved r \<Longrightarrow> same_core result r"
  by (auto simp: execBinary_def same_core_def split: prod.splits promise.splits)

lemma execBinary_not_rejected: "fst (execBinary parse w x result n) \<noteq> Rejected e"
  by (auto simp: execBinary_def split: prod.splits promise.splits)

lemma objdump_plain: "list_all plain (snd (objdump w compiler out result n i d))"
  by (simp add: objdump_def Let_def list_all_then_p execute_plain)

lemma objdump_resolved:
  "fst (objdump w compiler out result n i d) = Resolved r \<Longrightarrow> same_core result r"
  by (auto simp: objdump_def Let_def fst_then_p same_core_def split: promise.splits)

lemma read_output_plain: "list_all plain (snd (read_output w compiler out result n))"
  by (auto simp: read_output_def list_all_then_p execute_plain split: option.splits sum.splits)

lemma read_output_resolved:
  "fst (read_output w compiler out result n) = Resolved r \<Longrightarrow> same_core result r"
  by (auto simp: read_output_def fst_then_p handlePostProcessResult_def same_core_def
      split: option.splits sum.splits promise.splits if_splits)

lemma processOptOutput_plain: "list_all plain (snd (processOptOutput w compiler))"
  using execute_plain [of "demangler compiler" "[''-n'', ''-p'']"
      "no_options\<lparr>input := Some (opt_records w)\<rparr>" "optdemangle_events w"]
  by (auto simp: processOptOutput_def split: prod.splits promise.splits)

lemma postProcess_results_effects:
  "list_all (allowed (may_execute compiler filters))
     (snd (postProcess_results w compiler result out filters))"
  using execBinary_allowed [of "parseOutput w" "sandboxing w" out result "max_executable_output_size w"]
  by (auto simp: postProcess_results_def Let_def split_beta may_execute_def
      list_all_plain_allowed objdump_plain read_output_plain processOptOutput_plain)

lemma postProcess_results_resolved:
  "fst (postProcess_results w compiler result out filters) = Resolved sr
   \<Longrightarrow> same_core result (result_of sr)"
  by (auto simp: postProcess_results_def Let_def split_beta same_core_def
      split: promise.splits if_splits dest!: objdump_resolved read_output_resolved)

lemma after_compile_effects:
  "list_all (allowed (may_execute compiler filters))
     (snd (after_compile w compiler filters dirName out opts r ast))"
  by (simp add: after_compile_def Let_def postProcess_results_effects)

lemma after_compile_resolved:
  "fst (after_compile w compiler filters dirName out opts r ast) = Resolved sr
   \<Longrightarrow> same_core r (result_of sr)"
  by (auto simp: after_compile_def Let_def same_core_def split: if_splits
      dest!: postProcess_results_resolved)

lemma fst_execute: "fst (execute command args opts evs) = fst (exec_run opts evs)"
  by (simp add: execute_def split_beta)

lemma runCompiler_plain: "list_all plain (snd (runCompiler w ex args f eo evs))"
  by (auto simp: runCompiler_def list_all_then_p execute_plain split: option.splits)

lemma runCompiler_resolved:
  "fst (runCompiler w ex args f eo evs) = Resolved r
   \<Longrightarrow> \<exists>m. fst (exec_run eo evs) = Resolved m \<and> same_core m r"
  by (auto simp: runCompiler_def fst_then_p fst_execute parsed_def same_core_def
      split: option.splits promise.splits)

lemma generateAST_plain: "list_all plain (snd (generateAST w compiler f opts))"
  by (simp add: generateAST_def list_all_then_p runCompiler_plain)

lemma snd_both: "snd (both m n) = snd m @ snd n"
  by (simp add: both_def)

lemma fst_both_resolved:
  "fst (both m n) = Resolved ab \<Longrightarrow> fst m = Resolved (fst ab) \<and> fst n = Resolved (snd ab)"
  by (auto simp: both_def split: promise.splits)

lemma ast_promise_plain: "list_all plain (snd (ast_promise w compiler backendOptions f opts))"
  by (simp add: ast_promise_def generateAST_plain)

lemma compile_in_dir_effects:
  "list_all (allowed (may_execute compiler filters))
     (snd (compile_in_dir w compiler opts backendOptions filters dirName))"
  unfolding compile_in_dir_def Let_def
  by (intro list_all_then_p)
     (simp_all add: snd_both list_all_plain_allowed runCompiler_plain ast_promise_plain
        after_compile_effects split_beta)

lemma compile_in_dir_resolved:
  assumes "fst (compile_in_dir w compiler opts backendOptions filters dirName) = Resolved sr"
  shows "\<exists>m. fst (exec_run (getDefaultExecOptions w) (main_events w)) = Resolved m
           \<and> same_core m (result_of sr)"
proof -
  let ?input = "path_join dirName (compileFilename w)"
  let ?args = "truthy_args (prepareArguments compiler opts filters backendOptions ?input
                    (path_join dirName ''output''))"
  let ?run = "runCompiler w (exe compiler) ?args (filename ?input) (getDefaultExecOptions w)
                (main_events w)"
  let ?ast = "ast_promise w compiler backendOptions ?input (args_after_run w compiler ?args)"
  from assms obtain ab where ab: "fst (both ?run ?ast) = Resolved ab"
    and ac: "fst (after_compile w compiler filters dirName (path_join dirName ''output'')
                (args_after_run w compiler ?args) (fst ab) (snd ab)) = Resolved sr"
    by (auto simp: compile_in_dir_def Let_def fst_then_p [of "both ?run ?ast"] split_beta
        split: promise.splits)
  from fst_both_resolved [OF ab] have "fst ?run = Resolved (fst ab)" by simp
  from runCompiler_resolved [OF this] obtain m
    where m: "fst (exec_run (getDefaultExecOptions w) (main_events w)) = Resolved m"
      and c: "same_core m (fst ab)" by blast
  from after_compile_resolved [OF ac] c have "same_core m (result_of sr)"
    by (simp add: same_core_def)
  with m show ?thesis by blast
qed

lemma compileToAsm_effects:
  "list_all (allowed (may_execute compiler filters))
     (snd (compileToAsm w compiler src opts backendOptions filters))"
  using compile_in_dir_effects [of compiler filters w opts backendOptions]
  by (auto simp: compileToAsm_def split_beta split: sum.splits option.splits)

lemma compileToAsm_resolved:
  "fst (compileToAsm w compiler src opts backendOptions filters) = Resolved sr
   \<Longrightarrow> \<exists>m. fst (exec_run (getDefaultExecOptions w) (main_events w)) = Resolved m
         \<and> same_core m (result_of sr)"
  using compile_in_dir_resolved [of w compiler opts backendOptions filters _ sr]
  by (auto simp: compileToAsm_def split_beta split: sum.splits option.splits)

lemma unpack_result_effects: "list_all (allowed sb) (snd (unpack_result w filters sr))"
  by (auto simp: unpack_result_def Let_def split_beta split: option.splits stage_result.splits)

lemma unpack_result_resolved:
  "\<exists>r. fst (unpack_result w filters sr) = Resolved r \<and> same_core (result_of sr) r"
  by (cases sr) (auto simp: unpack_result_def Let_def same_core_def split: option.splits)

lemma postProcessAsm_plain: "list_all plain (snd (postProcessAsm w compiler result))"
  by (simp add: postProcessAsm_def list_all_then_p execute_plain)

lemma postProcessAsm_resolved:
  "fst (postProcessAsm w compiler result) = Resolved r \<Longrightarrow> same_core result r"
  by (auto simp: postProcessAsm_def fst_then_p same_core_def split: if_splits promise.splits)

lemma add_cfg_effects: "snd (add_cfg w compiler filters result) = []"
  by (simp add: add_cfg_def Let_def split: option.splits)

lemma add_cfg_resolved:
  "fst (add_cfg w compiler filters result) = Resolved r \<Longrightarrow> same_core result r"
  by (auto simp: add_cfg_def Let_def same_core_def split: if_splits option.splits)

lemma compile_chain_effects:
  "list_all (allowed (may_execute compiler filters))
     (snd (compile_chain w compiler src opts backendOptions filters))"
  unfolding compile_chain_def
  by (intro list_all_then_p)
     (simp_all add: compileToAsm_effects unpack_result_effects add_cfg_effects
        list_all_plain_allowed postProcessAsm_plain)

lemma compile_chain_resolved:
  assumes "fst (compile_chain w compiler src opts backendOptions filters) = Resolved r"
  shows "\<exists>m. fst (exec_run (getDefaultExecOptions w) (main_events w)) = Resolved m
           \<and> same_core m r"
proof -
  from assms obtain r3 where r3: "fst (then_p (then_p (compileToAsm w compiler src opts backendOptions filters)
                       (unpack_result w filters))
               (\<lambda>result. if flag filters ''demangle'' then postProcessAsm w compiler result
                         else (Resolved result, []))) = Resolved r3"
    and c3: "same_core r3 r"
    by (auto simp: compile_chain_def fst_then_p [of _ "add_cfg w compiler filters"]
        split: promise.splits dest: add_cfg_resolved)
  from r3 obtain r2 where r2: "fst (then_p (compileToAsm w compiler src opts backendOptions filters)
                       (unpack_result w filters)) = Resolved r2"
    and c2: "same_core r2 r3"
    by (auto simp: fst_then_p [of _ "\<lambda>result. if flag filters ''demangle'' then postProcessAsm w compiler result
                         else (Resolved result, [])"] same_core_refl
        split: promise.splits if_splits dest: postProcessAsm_resolved)
  from r2 obtain sr where sr: "fst (compileToAsm w compiler src opts backendOptions filters) = Resolved sr"
    and u: "fst (unpack_result w filters sr) = Resolved r2"
    by (auto simp: fst_then_p [of _ "unpack_result w filters"] split: promise.splits)
  from unpack_result_resolved [of w filters sr] u have c1: "same_core (result_of sr) r2"
    by auto
  from compileToAsm_resolved [OF sr] obtain m
    where m: "fst (exec_run (getDefaultExecOptions w) (main_events w)) = Resolved m"
      and c0: "same_core m (result_of sr)" by blast
  from c0 c1 c2 c3 have "same_core m r"
    by (simp add: same_core_def)
  with m show ?thesis by blast
qed

lemma compile_job_effects:
  "snd (compile_job w compiler key src opts backendOptions filters)
   = snd (compile_chain w compiler src opts backendOptions filters)
     @ (case fst (compile_chain w compiler src opts backendOptions filters) of
          Resolved r \<Rightarrow> if okToCache r then [CachePut key r] else []
        | _ \<Rightarrow> [])"
  by (simp add: compile_job_def snd_then_p cache_result_def split: promise.splits)

lemma compile_job_result:
  "fst (compile_job w compiler key src opts backendOptions filters)
   = fst (compile_chain w compiler src opts backendOptions filters)"
  by (simp add: compile_job_def fst_then_p cache_result_def split: promise.splits)

lemma map_of_delete_key:
  "map_of (delete_key k obj) k' = (if k' = k then None else map_of obj k')"
  by (induction obj) (auto simp: delete_key_def)

lemma flag_delete_key: "flag (delete_key k obj) k' = (k' \<noteq> k \<and> flag obj k')"
  by (simp add: flag_def map_of_delete_key)

lemma flag_clear_binary:
  "flag (clear_binary compiler filters) k =
     (flag filters k \<and> (k = ''binary'' \<longrightarrow> supportsBinary compiler))"
  by (auto simp: clear_binary_def flag_delete_key)

lemma clear_binary_idem:
  "clear_binary compiler (clear_binary compiler filters) = clear_binary compiler filters"
  by (simp add: clear_binary_def flag_delete_key)

lemma compile_rejects_options:
  "checkOptions w opts = Some e
   \<Longrightarrow> compile w compiler src opts backendOptions filters = (Rejected (RejString e), [])"
  by (simp add: compile_def)

lemma compile_rejects_source:
  "checkOptions w opts = None \<Longrightarrow> checkSource (splitLines w) src = Some e
   \<Longrightarrow> compile w compiler src opts backendOptions filters = (Rejected (RejString e), [])"
  by (simp add: compile_def)

lemma compile_hit:
  "checkOptions w opts = None \<Longrightarrow> checkSource (splitLines w) src = None
   \<Longrightarrow> cacheGet w (cache_key compiler src opts backendOptions (clear_binary compiler filters))
         = Some cached
   \<Longrightarrow> compile w compiler src opts backendOptions filters
       = (Resolved cached,
          [CacheGet (cache_key compiler src opts backendOptions (clear_binary compiler filters))])"
  by (simp add: compile_def Let_def)

lemma compile_miss:
  assumes "checkOptions w opts = None" and "checkSource (splitLines w) src = None"
    and "cacheGet w (cache_key compiler src opts backendOptions (clear_binary compiler filters)) = None"
  shows "compile w compiler src opts backendOptions filters
       = (fst (compile_chain w compiler (with_stub w (clear_binary compiler filters) src) opts
                 backendOptions (clear_binary compiler filters)),
          CacheGet (cache_key compiler src opts backendOptions (clear_binary compiler filters))
          # Enqueue
          # snd (compile_job w compiler
                   (cache_key compiler src opts backendOptions (clear_binary compiler filters))
                   (with_stub w (clear_binary compiler filters) src) opts backendOptions
                   (clear_binary compiler filters)))"
  using assms by (simp add: compile_def Let_def split_beta with_stub_def compile_job_result)

lemma compile_cases:
  "(\<exists>e. compile w compiler src opts backendOptions filters = (Rejected (RejString e), []))
   \<or> (\<exists>cached. compile w compiler src opts backendOptions filters
         = (Resolved cached,
            [CacheGet (cache_key compiler src opts backendOptions (clear_binary compiler filters))])
       \<and> cacheGet w (cache_key compiler src opts backendOptions (clear_binary compiler filters))
           = Some cached)
   \<or> (cacheGet w (cache_key compiler src opts backendOptions (clear_binary compiler filters)) = None
       \<and> compile w compiler src opts backendOptions filters
       = (fst (compile_chain w compiler (with_stub w (clear_binary compiler filters) src) opts
                 backendOptions (clear_binary compiler filters)),
          CacheGet (cache_key compiler src opts backendOptions (clear_binary compiler filters))
          # Enqueue
          # snd (compile_job w compiler
                   (cache_key compiler src opts backendOptions (clear_binary compiler filters))
                   (with_stub w (clear_binary compiler filters) src) opts backendOptions
                   (clear_binary compiler filters))))"
proof (cases "checkOptions w opts")
  case (Some e)
  then show ?thesis by (simp add: compile_rejects_options)
next
  case None
  note o = this
  show ?thesis
  proof (cases "checkSource (splitLines w) src")
    case (Some e)
    with o show ?thesis by (simp add: compile_rejects_source)
  next
    case None
    note s = this
    show ?thesis
    proof (cases "cacheGet w (cache_key compiler src opts backendOptions (clear_binary compiler filters))")
      case None
      with compile_miss [OF o s None] show ?thesis by simp
    next
      case (Some cached)
      with compile_hit [OF o s Some] show ?thesis by simp
    qed
  qed
qed

lemma allowed_not_put: "list_all (allowed sb) fx \<Longrightarrow> CachePut k r \<notin> set fx"
  by (induction fx) auto

lemma allowed_sandbox: "list_all (allowed sb) fx \<Longrightarrow> Sandbox x \<in> set fx \<Longrightarrow> sb"
  by (induction fx) auto

lemma run_child_okToCache:
  "fst (run_child opts s evs) = Resolved r
   \<Longrightarrow> okToCache r = (s_okToCache s \<and> \<not> (s_timeout s \<and> timer_fires evs))"
proof (induction opts s evs rule: run_child.induct)
  case (2 opts s nm d evs)
  then show ?case by (cases nm) (auto simp: on_data_def kill_def)
next
  case (3 opts s evs)
  then show ?case by (auto simp: on_timeout_def kill_def)
next
  case (4 opts s evs)
  then show ?case by (simp add: on_exit_def)
next
  case (5 opts s c sg evs)
  then show ?case by (auto simp: close_result_def)
qed simp_all

lemma exec_run_okToCache:
  "fst (exec_run opts evs) = Resolved r
   \<Longrightarrow> okToCache r = (\<not> (effectiveTimeoutMs opts \<noteq> 0 \<and> timer_fires evs))"
  by (auto simp: exec_run_def initial_state_def dest!: run_child_okToCache)

lemma default_timeout: "effectiveTimeoutMs (getDefaultExecOptions w) = compileTimeoutMs w"
  by (simp add: getDefaultExecOptions_def effectiveTimeoutMs_def num_or_def no_options_def)

lemma compile_job_puts:
  "CachePut k r \<in> set (snd (compile_job w compiler key src opts backendOptions filters))
   \<longleftrightarrow> k = key \<and> okToCache r
       \<and> fst (compile_chain w compiler src opts backendOptions filters) = Resolved r"
proof -
  have "CachePut k r \<notin> set (snd (compile_chain w compiler src opts backendOptions filters))"
    by (rule allowed_not_put) (rule compile_chain_effects)
  then show ?thesis
    by (auto simp: compile_job_effects split: promise.splits if_splits)
qed

section \<open>The example runs, evaluated\<close>

lemmas runner_defs = execute_def exec_run_def spawn_line_def stdin_effects_def no_options_def
  initial_state_def on_data_def on_timeout_def on_exit_def kill_def close_result_def render_def
  effectiveMaxOutput_def effectiveTimeoutMs_def num_or_def

lemmas regex_defs = include_re_def rx_space_def rx_dot_def space_chars_def

lemmas compile_defs = compile_def checkOptions_def checkSource_def clear_binary_def flag_def
  delete_key_def compile_job_def compile_chain_def compileToAsm_def compile_in_dir_def
  after_compile_def postProcess_results_def read_output_def unpack_result_def add_cfg_def
  cache_result_def then_p_def both_def runCompiler_def parsed_def ast_promise_def
  args_after_run_def getDefaultExecOptions_def prepareArguments_def optionsForFilter_def
  truthy_args_def filename_def path_join_def failed_def truthy_str_def supportsObjdump_def
  optOutputRequested_def isCfgCompiler_def postProcessAsm_def Let_def

lemmas example_defs = example_world_def example_clang_def getDefaultFilters_def
  failing_world_def hanging_world_def example_key_def example_spawn_def ok_result_def
  failed_result_def timed_out_result_def timeoutNotice_def execute_world_def

lemma example_compile:
  "compile example_world example_clang ''int f();'' [''-O2''] None getDefaultFilters
   = (Resolved ok_result,
      [CacheGet example_key, Enqueue, MkTempDir, WriteFile ''/tmp/ce1/example.cpp'' ''int f();'',
       example_spawn, CachePut example_key ok_result])"
  by (simp add: compile_defs runner_defs regex_defs example_defs)

lemma failing_compile:
  "compile failing_world example_clang ''int f();'' [''-O2''] None getDefaultFilters
   = (Resolved failed_result,
      [CacheGet example_key, Enqueue, MkTempDir, WriteFile ''/tmp/ce1/example.cpp'' ''int f();'',
       example_spawn, CachePut example_key failed_result])"
  by (simp add: compile_defs runner_defs regex_defs example_defs)


lemma example_key_clear:
  "cache_key example_clang ''int f();'' [''-O2''] None (clear_binary example_clang getDefaultFilters)
   = example_key"
  by (simp add: example_key_def clear_binary_def flag_def getDefaultFilters_def)

lemmas sandbox_defs = execBinary_def sandbox_def sandbox_wait_def docker_run_args_def
  docker_kill_def removeContainer_def first_settled_def path_dirname_def path_basename_def
  trim_def is_space_def space_chars_def objdump_def example_sandbox_def

lemma executing_compile:
  "Sandbox ''/tmp/ce1/output''
     \<in> set (snd (compile execute_world example_clang ''int main() {}'' [] None
                   [(''binary'', True), (''link'', True), (''execute'', True)]))"
  by (simp add: compile_defs runner_defs regex_defs sandbox_defs example_defs includes_str.simps)


section \<open>What reaches the cache\<close>

text \<open>
  C1, as amended. \<open>compile\<close> inserts a result into the cache exactly when the job has
  run to its end and the result has \<open>okToCache\<close> set; nothing else is inserted, and the
  key is the fingerprint of the request. \<open>okToCache\<close> is the flag of the main compiler
  run, which is false exactly when the timer of that run has fired; exit status and
  signal of the result are those of the main run and have no part in the decision. So a
  compile that fails with a non-zero exit status, ends on a signal or has its output
  truncated is cached like any other, and only a timed-out one is not.
\<close>

theorem compile_cache_insertion:
  assumes "compile w compiler src opts backendOptions filters = (p, fx)"
    and "key = cache_key compiler src opts backendOptions (clear_binary compiler filters)"
  shows "(\<forall>k r. CachePut k r \<in> set fx \<longrightarrow>
            k = key \<and> p = Resolved r \<and> okToCache r \<and> cacheGet w key = None)
       \<and> (\<forall>r. p = Resolved r \<and> cacheGet w key = None \<longrightarrow>
            (okToCache r \<longrightarrow> CachePut key r \<in> set fx)
          \<and> (okToCache r \<longleftrightarrow> \<not> (compileTimeoutMs w \<noteq> 0 \<and> timer_fires (main_events w)))
          \<and> (\<exists>m. fst (exec_run (getDefaultExecOptions w) (main_events w)) = Resolved m
                \<and> status r = status m \<and> signal r = signal m))"
proof -
  let ?filters = "clear_binary compiler filters"
  let ?chain = "compile_chain w compiler (with_stub w ?filters src) opts backendOptions ?filters"
  let ?job = "compile_job w compiler key (with_stub w ?filters src) opts backendOptions ?filters"
  from compile_cases [of w compiler src opts backendOptions filters]
  consider (rejected) e where "p = Rejected (RejString e)" "fx = []"
    | (hit) cached where "p = Resolved cached" "fx = [CacheGet key]" "cacheGet w key = Some cached"
    | (miss) "cacheGet w key = None" "p = fst ?chain" "fx = CacheGet key # Enqueue # snd ?job"
    using assms by auto
  then show ?thesis
  proof cases
    case rejected
    then show ?thesis by simp
  next
    case hit
    then show ?thesis by simp
  next
    case miss
    have puts: "\<And>k r. CachePut k r \<in> set fx \<longleftrightarrow> k = key \<and> okToCache r \<and> p = Resolved r"
      using miss by (auto simp: compile_job_puts)
    have core: "\<And>r. p = Resolved r \<Longrightarrow>
        \<exists>m. fst (exec_run (getDefaultExecOptions w) (main_events w)) = Resolved m
          \<and> same_core m r"
      using miss compile_chain_resolved [of w compiler "with_stub w ?filters src" opts
          backendOptions ?filters] by simp
    have ok: "\<And>r. p = Resolved r \<Longrightarrow>
        okToCache r \<longleftrightarrow> \<not> (compileTimeoutMs w \<noteq> 0 \<and> timer_fires (main_events w))"
    proof -
      fix r assume "p = Resolved r"
      from core [OF this] obtain m
        where m: "fst (exec_run (getDefaultExecOptions w) (main_events w)) = Resolved m"
          and c: "same_core m r" by blast
      from exec_run_okToCache [OF m] c
      show "okToCache r \<longleftrightarrow> \<not> (compileTimeoutMs w \<noteq> 0 \<and> timer_fires (main_events w))"
        by (simp add: default_timeout same_core_def)
    qed
    have st: "\<And>r. p = Resolved r \<Longrightarrow>
        \<exists>m. fst (exec_run (getDefaultExecOptions w) (main_events w)) = Resolved m
          \<and> status r = status m \<and> signal r = signal m"
      using core by (fastforce simp: same_core_def)
    show ?thesis
      using puts ok st miss(1) by blast
  qed
qed

text \<open>A successful compile of the example: the result is cached.\<close>

theorem compile_cache_insertion_witness:
  "compile example_world example_clang ''int f();'' [''-O2''] None getDefaultFilters
     = (Resolved ok_result,
        [CacheGet example_key, Enqueue, MkTempDir, WriteFile ''/tmp/ce1/example.cpp'' ''int f();'',
         example_spawn, CachePut example_key ok_result])
   \<and> cacheGet example_world example_key = None
   \<and> okToCache ok_result
   \<and> \<not> timer_fires (main_events example_world)
   \<and> CachePut example_key ok_result
       \<in> set [CacheGet example_key, Enqueue, MkTempDir,
                WriteFile ''/tmp/ce1/example.cpp'' ''int f();'', example_spawn,
                CachePut example_key ok_result]"
  using compile_cache_insertion [OF example_compile example_key_clear [symmetric]]
    example_compile
  by (simp add: example_world_def ok_result_def)

text \<open>
  C1 as stated fails: the compiler exits with status 1, and the result is put into the
  cache all the same.
\<close>

theorem compile_cache_insertion_counterexample:
  "compile failing_world example_clang ''int f();'' [''-O2''] None getDefaultFilters
     = (Resolved failed_result,
        [CacheGet example_key, Enqueue, MkTempDir, WriteFile ''/tmp/ce1/example.cpp'' ''int f();'',
         example_spawn, CachePut example_key failed_result])
   \<and> status failed_result = Some 1
   \<and> okToCache failed_result"
  using failing_compile by (simp add: failed_result_def)

section \<open>Timeouts\<close>





section \<open>The source screen\<close>

lemma failed_lines_filter:
  "failed_lines k ls
   = map (\<lambda>i. include_diagnostic (k + i))
       (filter (\<lambda>i. rx_test include_re (ls ! i)) [0..<length ls])"
proof (induction ls arbitrary: k)
  case Nil
  then show ?case by simp
next
  case (Cons l ls)
  have upt: "[0..<length (l # ls)] = 0 # map Suc [0..<length ls]"
    by (simp add: upt_conv_Cons map_Suc_upt del: upt_Suc)
  show ?case
    unfolding upt by (simp add: Cons filter_map comp_def)
qed

lemma failed_lines_empty:
  "failed_lines k ls = [] \<longleftrightarrow> (\<forall>l \<in> set ls. \<not> rx_test include_re l)"
  by (induction ls arbitrary: k) auto

text \<open>
  C6, as amended. \<open>checkSource\<close> finds nothing exactly when no line of the source
  matches the inclusion pattern; otherwise its diagnostic is the list, joined by newlines,
  of \<open><stdin>:<line>:1: no absolute or relative includes please\<close> for the offending
  lines in their order, lines counted from 1. When the options pass the bad-option screen,
  \<open>compile\<close> rejects with that diagnostic, having done nothing at all (no look into the
  cache, no job in the queue, no child process), exactly when \<open>checkSource\<close> reports it.
  \<open>compile\<close> rejects for other reasons as well: forbidden options first of all.
\<close>

theorem include_screen:
  "(checkSource sl src = None \<longleftrightarrow> (\<forall>l \<in> set (sl src). \<not> rx_test include_re l))
   \<and> (\<forall>d. checkSource sl src = Some d \<longrightarrow>
         d = join [CHR 0x0A]
               (map include_diagnostic
                  (filter (\<lambda>i. rx_test include_re (sl src ! i)) [0..<length (sl src)])))
   \<and> (checkOptions w opts = None \<longrightarrow>
         (\<forall>d. compile w compiler src opts backendOptions filters = (Rejected (RejString d), [])
              \<longleftrightarrow> checkSource (splitLines w) src = Some d))"
proof (intro conjI allI impI)
  show "checkSource sl src = None \<longleftrightarrow> (\<forall>l \<in> set (sl src). \<not> rx_test include_re l)"
    by (simp add: checkSource_def Let_def failed_lines_empty)
next
  fix d assume "checkSource sl src = Some d"
  then show "d = join [CHR 0x0A]
               (map include_diagnostic
                  (filter (\<lambda>i. rx_test include_re (sl src ! i)) [0..<length (sl src)]))"
    by (auto simp: checkSource_def Let_def failed_lines_filter split: if_splits)
next
  fix d assume o: "checkOptions w opts = None"
  show "compile w compiler src opts backendOptions filters = (Rejected (RejString d), [])
              \<longleftrightarrow> checkSource (splitLines w) src = Some d"
  proof (cases "checkSource (splitLines w) src")
    case None
    then have "snd (compile w compiler src opts backendOptions filters) \<noteq> []"
      using o by (auto simp: compile_def Let_def split_beta split: option.splits)
    with None show ?thesis by auto
  next
    case (Some e)
    with o show ?thesis by (simp add: compile_rejects_source)
  qed
qed

text \<open>
  A source of three lines whose second and third are caught, and the request whose only
  line includes \<open>/etc/passwd\<close>.
\<close>

theorem include_screen_witness:
  "checkSource (split_on CHR 0x0A)
       (''int x;'' @ [CHR 0x0A] @ ''#include '' @ [CHR 0x22] @ ''/etc/passwd'' @ [CHR 0x22]
          @ [CHR 0x0A] @ '' # import <../secret>'')
     = Some (''<stdin>:2:1: no absolute or relative includes please'' @ [CHR 0x0A]
             @ ''<stdin>:3:1: no absolute or relative includes please'')
   \<and> compile example_world example_clang
       (''#include '' @ [CHR 0x22] @ ''/etc/passwd'' @ [CHR 0x22]) [''-O2''] None getDefaultFilters
     = (Rejected (RejString ''<stdin>:1:1: no absolute or relative includes please''), [])"
proof -
  let ?src = "''#include '' @ [CHR 0x22] @ ''/etc/passwd'' @ [CHR 0x22]"
  have o: "checkOptions example_world [''-O2''] = None"
    by (simp add: checkOptions_def example_world_def)
  have s: "checkSource (splitLines example_world) ?src
      = Some ''<stdin>:1:1: no absolute or relative includes please''"
    by (simp add: checkSource_def example_world_def regex_defs include_diagnostic_def
        show_nat_small digit_char_def)
  have m: "checkSource (split_on CHR 0x0A)
       (''int x;'' @ [CHR 0x0A] @ ''#include '' @ [CHR 0x22] @ ''/etc/passwd'' @ [CHR 0x22]
          @ [CHR 0x0A] @ '' # import <../secret>'')
     = Some (''<stdin>:2:1: no absolute or relative includes please'' @ [CHR 0x0A]
             @ ''<stdin>:3:1: no absolute or relative includes please'')"
    by (simp add: checkSource_def regex_defs include_diagnostic_def show_nat_small digit_char_def)
  from include_screen [of "splitLines example_world" ?src example_world "[''-O2'']"
      example_clang None getDefaultFilters] o s m
  show ?thesis by simp
qed

text \<open>
  C6 as stated fails in its ``only if'': a request with a forbidden option is rejected
  although no line of its source matches.
\<close>

theorem include_screen_counterexample:
  "compile example_world example_clang ''int f();'' [''-fplugin=x.so''] None getDefaultFilters
     = (Rejected (RejString ''Bad options: -fplugin=x.so''), [])
   \<and> checkSource (splitLines example_world) ''int f();'' = None"
  by (simp add: compile_def checkOptions_def checkSource_def example_world_def regex_defs)

section \<open>The filter set\<close>

lemma clear_binary_filter:
  "flag filters ''binary'' \<and> \<not> supportsBinary compiler
   \<Longrightarrow> clear_binary compiler filters = [p \<leftarrow> filters. fst p \<noteq> ''binary'']"
  by (simp add: clear_binary_def delete_key_def case_prod_unfold)

lemma clear_binary_same:
  "\<not> (flag filters ''binary'' \<and> \<not> supportsBinary compiler) \<Longrightarrow> clear_binary compiler filters = filters"
  by (auto simp: clear_binary_def)

lemma compile_in_dir_spawn:
  "exe compiler = Some command
   \<Longrightarrow> \<exists>rest. snd (compile_in_dir w compiler opts backendOptions filters dirName)
        = Spawn (fst (spawn_line command
                   (truthy_args (prepareArguments compiler opts filters backendOptions
                      (path_join dirName (compileFilename w)) (path_join dirName ''output'')))
                   (getDefaultExecOptions w)))
                (snd (spawn_line command
                   (truthy_args (prepareArguments compiler opts filters backendOptions
                      (path_join dirName (compileFilename w)) (path_join dirName ''output'')))
                   (getDefaultExecOptions w))) # rest"
  by (simp add: compile_in_dir_def Let_def snd_then_p snd_both runCompiler_def execute_def
      split_beta)

lemma compile_chain_spawn:
  assumes "mkdir_result w = Inr dirName" and "writeFile_error w = None"
    and "exe compiler = Some command"
  shows "\<exists>rest. snd (compile_chain w compiler src opts backendOptions filters)
        = MkTempDir # WriteFile (path_join dirName (compileFilename w)) src
          # Spawn (fst (spawn_line command
                   (truthy_args (prepareArguments compiler opts filters backendOptions
                      (path_join dirName (compileFilename w)) (path_join dirName ''output'')))
                   (getDefaultExecOptions w)))
                (snd (spawn_line command
                   (truthy_args (prepareArguments compiler opts filters backendOptions
                      (path_join dirName (compileFilename w)) (path_join dirName ''output'')))
                   (getDefaultExecOptions w))) # rest"
proof -
  from compile_in_dir_spawn [OF assms(3), of w opts backendOptions filters dirName]
  obtain rest where "snd (compile_in_dir w compiler opts backendOptions filters dirName)
        = Spawn (fst (spawn_line command
                   (truthy_args (prepareArguments compiler opts filters backendOptions
                      (path_join dirName (compileFilename w)) (path_join dirName ''output'')))
                   (getDefaultExecOptions w)))
                (snd (spawn_line command
                   (truthy_args (prepareArguments compiler opts filters backendOptions
                      (path_join dirName (compileFilename w)) (path_join dirName ''output'')))
                   (getDefaultExecOptions w))) # rest"
    by blast
  with assms(1,2) show ?thesis
    by (simp add: compile_chain_def snd_then_p compileToAsm_def split_beta)
qed

text \<open>
  C7, as amended. In every compile the binary is run in the sandbox only if \<open>binary\<close>,
  \<open>link\<close> and \<open>execute\<close> are all set in the request's filters. When \<open>binary\<close> is set and
  the compiler does not support binary output, the property \<open>binary\<close> is deleted from
  the filters before anything else is done with them, the other properties staying as
  they are, and the compile is the one of the request without \<open>binary\<close>; otherwise the
  filters are used as they came. A compile that gets as far as running the compiler has
  looked into the cache, entered the queue, made the directory and written the source,
  and then starts the compiler with the arguments built from the filters after that
  deletion. When \<open>binary\<close> is set and the compiler supports it, these arguments are the ones
  of the same request without \<open>intel\<close>: \<open>-g -o <output>\<close> and, without \<open>link\<close>, \<open>-c\<close>. When
  \<open>binary\<close> is set and the compiler does not support it, \<open>intel\<close> does add the compiler's
  Intel-syntax flag, as for a request without \<open>binary\<close>. In \<open>postProcess\<close>, filters with
  \<open>binary\<close> and a compiler with an object dumper start the object dumper, with \<open>-M intel\<close>
  when \<open>intel\<close> is set.
\<close>

theorem filter_invariants:
  "(Sandbox x \<in> set (snd (compile w compiler src opts backendOptions filters)) \<longrightarrow>
      flag filters ''binary'' \<and> flag filters ''link'' \<and> flag filters ''execute'')
   \<and> (flag filters ''binary'' \<and> \<not> supportsBinary compiler \<longrightarrow>
        clear_binary compiler filters = [p \<leftarrow> filters. fst p \<noteq> ''binary'']
      \<and> compile w compiler src opts backendOptions filters
          = compile w compiler src opts backendOptions [p \<leftarrow> filters. fst p \<noteq> ''binary''])
   \<and> (\<not> (flag filters ''binary'' \<and> \<not> supportsBinary compiler) \<longrightarrow>
        clear_binary compiler filters = filters)
   \<and> (checkOptions w opts = None \<and> checkSource (splitLines w) src = None
        \<and> cacheGet w (cache_key compiler src opts backendOptions (clear_binary compiler filters)) = None
        \<and> mkdir_result w = Inr dirName \<and> writeFile_error w = None \<and> exe compiler = Some command \<longrightarrow>
        (\<exists>rest. snd (compile w compiler src opts backendOptions filters)
           = [CacheGet (cache_key compiler src opts backendOptions (clear_binary compiler filters)),
              Enqueue, MkTempDir,
              WriteFile (path_join dirName (compileFilename w))
                (with_stub w (clear_binary compiler filters) src),
              Spawn (fst (spawn_line command
                       (truthy_args (prepareArguments compiler opts (clear_binary compiler filters)
                          backendOptions (path_join dirName (compileFilename w))
                          (path_join dirName ''output'')))
                       (getDefaultExecOptions w)))
                    (snd (spawn_line command
                       (truthy_args (prepareArguments compiler opts (clear_binary compiler filters)
                          backendOptions (path_join dirName (compileFilename w))
                          (path_join dirName ''output'')))
                       (getDefaultExecOptions w)))] @ rest))
   \<and> (flag filters ''binary'' \<and> supportsBinary compiler \<longrightarrow>
        prepareArguments compiler opts (clear_binary compiler filters) backendOptions
            inputFilename outputFilename
          = prepareArguments compiler opts (delete_key ''intel'' filters) backendOptions
              inputFilename outputFilename
      \<and> optionsForFilter compiler (clear_binary compiler filters) outputFilename
          = [Some ''-g'', Some ''-o'', Some outputFilename]
            @ (if flag filters ''link'' then [] else [Some ''-c'']))
   \<and> (flag filters ''binary'' \<and> \<not> supportsBinary compiler \<and> flag filters ''intel''
        \<and> intelAsm compiler \<noteq> [] \<longrightarrow>
        optionsForFilter compiler (clear_binary compiler filters) outputFilename
          = [Some ''-g'', Some ''-o'', Some outputFilename]
            @ map Some (split_on CHR '' '' (intelAsm compiler)) @ [Some ''-S''])
   \<and> (flag filters ''binary'' \<and> supportsObjdump compiler \<longrightarrow>
        Spawn (objdumper compiler)
          ([''-d'', outputFilename, ''-l'', ''--insn-width=16'']
           @ (if flag filters ''demangle'' then [''-C''] else [])
           @ (if flag filters ''intel'' then [''-M'', ''intel''] else []))
          \<in> set (snd (postProcess_results w compiler result outputFilename filters)))"
proof -
  have one: "flag filters ''binary'' \<and> flag filters ''link'' \<and> flag filters ''execute''"
    if sb: "Sandbox x \<in> set (snd (compile w compiler src opts backendOptions filters))"
  proof -
    let ?filters = "clear_binary compiler filters"
    let ?key = "cache_key compiler src opts backendOptions ?filters"
    let ?src = "with_stub w ?filters src"
    from compile_cases [of w compiler src opts backendOptions filters] sb
    have "Sandbox x \<in> set (snd (compile_job w compiler ?key ?src opts backendOptions ?filters))"
      by auto
    then have "Sandbox x \<in> set (snd (compile_chain w compiler ?src opts backendOptions ?filters))"
      by (auto simp: compile_job_effects split: promise.splits if_splits)
    then have "may_execute compiler ?filters"
      by (rule allowed_sandbox [OF compile_chain_effects])
    then show ?thesis
      by (simp add: may_execute_def flag_clear_binary)
  qed
  have two: "clear_binary compiler filters = [p \<leftarrow> filters. fst p \<noteq> ''binary'']
      \<and> compile w compiler src opts backendOptions filters
          = compile w compiler src opts backendOptions [p \<leftarrow> filters. fst p \<noteq> ''binary'']"
    if "flag filters ''binary'' \<and> \<not> supportsBinary compiler"
  proof -
    have "compile w compiler src opts backendOptions filters
          = compile w compiler src opts backendOptions (clear_binary compiler filters)"
      by (simp add: compile_def clear_binary_idem Let_def split: option.splits)
    with clear_binary_filter [OF that] show ?thesis by simp
  qed
  have three: "clear_binary compiler filters = filters"
    if "\<not> (flag filters ''binary'' \<and> \<not> supportsBinary compiler)"
    using that by (rule clear_binary_same)
  have four: "\<exists>rest. snd (compile w compiler src opts backendOptions filters)
           = [CacheGet (cache_key compiler src opts backendOptions (clear_binary compiler filters)),
              Enqueue, MkTempDir,
              WriteFile (path_join dirName (compileFilename w))
                (with_stub w (clear_binary compiler filters) src),
              Spawn (fst (spawn_line command
                       (truthy_args (prepareArguments compiler opts (clear_binary compiler filters)
                          backendOptions (path_join dirName (compileFilename w))
                          (path_join dirName ''output'')))
                       (getDefaultExecOptions w)))
                    (snd (spawn_line command
                       (truthy_args (prepareArguments compiler opts (clear_binary compiler filters)
                          backendOptions (path_join dirName (compileFilename w))
                          (path_join dirName ''output'')))
                       (getDefaultExecOptions w)))] @ rest"
    if "checkOptions w opts = None \<and> checkSource (splitLines w) src = None
        \<and> cacheGet w (cache_key compiler src opts backendOptions (clear_binary compiler filters)) = None
        \<and> mkdir_result w = Inr dirName \<and> writeFile_error w = None \<and> exe compiler = Some command"
  proof -
    let ?filters = "clear_binary compiler filters"
    from that have c: "checkOptions w opts = None" "checkSource (splitLines w) src = None"
      "cacheGet w (cache_key compiler src opts backendOptions ?filters) = None"
      and d: "mkdir_result w = Inr dirName" "writeFile_error w = None" "exe compiler = Some command"
      by simp_all
    from compile_chain_spawn [OF d, of "with_stub w ?filters src" opts backendOptions ?filters]
    obtain rest where "snd (compile_chain w compiler (with_stub w ?filters src) opts backendOptions
          ?filters)
        = MkTempDir # WriteFile (path_join dirName (compileFilename w)) (with_stub w ?filters src)
          # Spawn (fst (spawn_line command
                   (truthy_args (prepareArguments compiler opts ?filters backendOptions
                      (path_join dirName (compileFilename w)) (path_join dirName ''output'')))
                   (getDefaultExecOptions w)))
                (snd (spawn_line command
                   (truthy_args (prepareArguments compiler opts ?filters backendOptions
                      (path_join dirName (compileFilename w)) (path_join dirName ''output'')))
                   (getDefaultExecOptions w))) # rest"
      by blast
    then show ?thesis
      by (simp add: compile_miss [OF c] compile_job_effects)
  qed
  have five: "prepareArguments compiler opts (clear_binary compiler filters) backendOptions
            inputFilename outputFilename
          = prepareArguments compiler opts (delete_key ''intel'' filters) backendOptions
              inputFilename outputFilename
      \<and> optionsForFilter compiler (clear_binary compiler filters) outputFilename
          = [Some ''-g'', Some ''-o'', Some outputFilename]
            @ (if flag filters ''link'' then [] else [Some ''-c''])"
    if "flag filters ''binary'' \<and> supportsBinary compiler"
    using that
    by (simp add: clear_binary_same prepareArguments_def optionsForFilter_def filename_def
        flag_delete_key)
  have six: "optionsForFilter compiler (clear_binary compiler filters) outputFilename
          = [Some ''-g'', Some ''-o'', Some outputFilename]
            @ map Some (split_on CHR '' '' (intelAsm compiler)) @ [Some ''-S'']"
    if "flag filters ''binary'' \<and> \<not> supportsBinary compiler \<and> flag filters ''intel''
        \<and> intelAsm compiler \<noteq> []"
    using that
    by (simp add: optionsForFilter_def filename_def flag_clear_binary)
  have seven: "Spawn (objdumper compiler)
          ([''-d'', outputFilename, ''-l'', ''--insn-width=16'']
           @ (if flag filters ''demangle'' then [''-C''] else [])
           @ (if flag filters ''intel'' then [''-M'', ''intel''] else []))
          \<in> set (snd (postProcess_results w compiler result outputFilename filters))"
    if "flag filters ''binary'' \<and> supportsObjdump compiler"
    using that
    by (simp add: postProcess_results_def Let_def split_beta objdump_def snd_then_p execute_def
        spawn_line_def no_options_def)
  from one two three four five six seven show ?thesis by blast
qed

text \<open>
  A request with \<open>binary\<close>, \<open>link\<close> and \<open>execute\<close> on a compiler with binary support: it
  reaches the sandbox, and \<open>intel\<close> would add nothing to its arguments. The request with
  \<open>binary\<close> and \<open>intel\<close> on a compiler without binary support: it is compiled as the
  request with \<open>intel\<close> alone.
\<close>

theorem filter_invariants_witness:
  "Sandbox ''/tmp/ce1/output''
     \<in> set (snd (compile execute_world example_clang ''int main() {}'' [] None
                   [(''binary'', True), (''link'', True), (''execute'', True)]))
   \<and> optionsForFilter example_clang
        (clear_binary example_clang [(''binary'', True), (''link'', True), (''execute'', True)])
        ''/tmp/ce1/output''
       = [Some ''-g'', Some ''-o'', Some ''/tmp/ce1/output'']
   \<and> clear_binary (example_clang\<lparr>supportsBinary := False\<rparr>) [(''binary'', True), (''intel'', True)]
       = [(''intel'', True)]
   \<and> compile example_world (example_clang\<lparr>supportsBinary := False\<rparr>) ''int f();'' [] None
        [(''binary'', True), (''intel'', True)]
       = compile example_world (example_clang\<lparr>supportsBinary := False\<rparr>) ''int f();'' [] None
           [(''intel'', True)]"
proof -
  let ?all = "[(''binary'', True), (''link'', True), (''execute'', True)]"
  let ?two = "[(''binary'', True), (''intel'', True)]"
  let ?old = "example_clang\<lparr>supportsBinary := False\<rparr>"
  have a: "flag ?all ''binary'' \<and> supportsBinary example_clang"
    by (simp add: flag_def example_clang_def)
  have b: "flag ?two ''binary'' \<and> \<not> supportsBinary ?old"
    by (simp add: flag_def)
  have c: "[p \<leftarrow> ?two. fst p \<noteq> ''binary''] = [(''intel'', True)]"
    by simp
  note first = filter_invariants [where w = execute_world and compiler = example_clang
      and src = "''int main() {}''" and opts = "[]" and backendOptions = None and filters = ?all
      and x = "''/tmp/ce1/output''" and outputFilename = "''/tmp/ce1/output''"]
  note second = filter_invariants [where w = example_world and compiler = ?old
      and src = "''int f();''" and opts = "[]" and backendOptions = None and filters = ?two]
  note supported = first [THEN conjunct2, THEN conjunct2, THEN conjunct2, THEN conjunct2,
      THEN conjunct1, rule_format, OF a]
  note cleared = second [THEN conjunct2, THEN conjunct1, rule_format, OF b]
  from supported cleared executing_compile c show ?thesis
    by (simp add: flag_def)
qed

text \<open>
  C7 as stated fails in its last part: for a request with \<open>binary\<close> and \<open>intel\<close> on a
  compiler without binary support, the compiler is started with its Intel-syntax flag
  and \<open>-S\<close>.
\<close>

theorem filter_invariants_counterexample:
  "flag [(''binary'', True), (''intel'', True)] ''binary''
   \<and> flag [(''binary'', True), (''intel'', True)] ''intel''
   \<and> Spawn ''/usr/bin/clang++''
        [''-g'', ''-o'', ''/tmp/ce1/output'', ''-mllvm'', ''--x86-asm-syntax=intel'', ''-S'',
         ''-std=c++14'', ''/tmp/ce1/example.cpp'']
       \<in> set (snd (compile example_world (example_clang\<lparr>supportsBinary := False\<rparr>) ''int f();''
                     [] None [(''binary'', True), (''intel'', True)]))"
  by (simp add: compile_defs runner_defs regex_defs example_defs)

section \<open>The cache key and the cache hit\<close>






































section \<open>The filters of a request\<close>

lemma api_filters_default: "api_filters None None None = getDefaultFilters"
  by (simp add: api_filters_def getDefaultFilters_def truthy_str_def str_or_empty_def
      set_key_def array_index_def delete_key_def)

lemma api_filters_falsy:
  "\<not> truthy_str f \<Longrightarrow> \<not> truthy_str a \<Longrightarrow> \<not> truthy_str r
   \<Longrightarrow> api_filters f a r = getDefaultFilters"
  by (auto simp: api_filters_def getDefaultFilters_def truthy_str_def str_or_empty_def
      set_key_def array_index_def delete_key_def split: option.splits)

text \<open>
  C10, as amended. When the handler calls \<open>compile\<close> for a JSON request without
  \<open>options.filters\<close>, the filters are the default set \<open>{intel: true, commentOnly: true,
  directives: true, labels: true, optOutput: false}\<close>. For an API-style request without
  \<open>?filters=\<close> they are the default set with the names of \<open>?addFilters=\<close> set and then
  the names of \<open>?removeFilters=\<close> deleted, which is the default set itself when neither
  parameter is given. \<open>compile\<close> leaves the default set as it is: it has no \<open>binary\<close> to
  clear.
\<close>

theorem default_filters:
  assumes "handler compilersById quote_parse globalOptions req
             = (CallCompile compiler src opts backendOptions filters, globalOptions')"
  shows "(is_json req \<and> (\<forall>requestOptions. body_options req = Some requestOptions
                           \<longrightarrow> requestFilters requestOptions = None)
          \<longrightarrow> filters = getDefaultFilters)
       \<and> (\<not> is_json req \<and> \<not> truthy_str (query_filters req)
          \<longrightarrow> filters = foldl (\<lambda>fs f. delete_key f fs)
                          (foldl (\<lambda>fs f. set_key f True fs) getDefaultFilters
                             (split_on CHR '','' (str_or_empty (query_addFilters req))))
                          (split_on CHR '','' (str_or_empty (query_removeFilters req))))
       \<and> (\<not> is_json req \<and> \<not> truthy_str (query_filters req)
            \<and> \<not> truthy_str (query_addFilters req) \<and> \<not> truthy_str (query_removeFilters req)
          \<longrightarrow> filters = getDefaultFilters)
       \<and> clear_binary compiler getDefaultFilters = getDefaultFilters"
proof -
  have json: "filters = getDefaultFilters"
    if "is_json req" "\<forall>requestOptions. body_options req = Some requestOptions
                           \<longrightarrow> requestFilters requestOptions = None"
    using assms that
    by (auto simp: handler_def dispatch_def Let_def split: option.splits if_splits)
  have api: "filters = api_filters (query_filters req) (query_addFilters req) (query_removeFilters req)"
    if "\<not> is_json req"
    using assms that
    by (auto simp: handler_def dispatch_def Let_def split: option.splits if_splits)
  have two: "filters = foldl (\<lambda>fs f. delete_key f fs)
                          (foldl (\<lambda>fs f. set_key f True fs) getDefaultFilters
                             (split_on CHR '','' (str_or_empty (query_addFilters req))))
                          (split_on CHR '','' (str_or_empty (query_removeFilters req)))"
    if "\<not> is_json req" "\<not> truthy_str (query_filters req)"
    using api that by (simp add: api_filters_def Let_def)
  have three: "filters = getDefaultFilters"
    if "\<not> is_json req" "\<not> truthy_str (query_filters req)"
       "\<not> truthy_str (query_addFilters req)" "\<not> truthy_str (query_removeFilters req)"
    using api that by (simp add: api_filters_falsy)
  have four: "clear_binary compiler getDefaultFilters = getDefaultFilters"
    by (simp add: clear_binary_def flag_def getDefaultFilters_def)
  from json two three four show ?thesis by blast
qed

text \<open>An API-style and a JSON request without any filter parameter.\<close>

theorem default_filters_witness:
  "handler example_compilers (split_on CHR '' '') (Some None) api_request
     = (CallCompile example_clang ''int f();'' [''-O2''] None getDefaultFilters, Some None)
   \<and> handler example_compilers (split_on CHR '' '') None json_request
     = (CallCompile example_clang ''int f();'' [''-O2''] None getDefaultFilters, Some None)"
proof -
  have a: "handler example_compilers (split_on CHR '' '') (Some None) api_request
     = (CallCompile example_clang ''int f();'' [''-O2''] None
          (api_filters None None None), Some None)"
    by (simp add: handler_def dispatch_def example_compilers_def api_request_def getRemote_def
        example_clang_def str_or_empty_def)
  have j: "handler example_compilers (split_on CHR '' '') None json_request
     = (CallCompile example_clang ''int f();'' [''-O2''] None getDefaultFilters, Some None)"
    by (simp add: handler_def dispatch_def example_compilers_def json_request_def getRemote_def
        example_clang_def str_or_empty_def truthy_str_def)
  note a' = a [unfolded api_filters_default]
  from default_filters [OF a'] default_filters [OF j] a' j show ?thesis
    by simp
qed

text \<open>
  C10 as stated fails: an API-style request without \<open>?filters=\<close> but with
  \<open>?addFilters=binary\<close> is compiled with the default set plus \<open>binary\<close>.
\<close>

theorem default_filters_counterexample:
  "handler example_compilers (split_on CHR '' '') (Some None)
       (api_request\<lparr>query_addFilters := Some ''binary''\<rparr>)
     = (CallCompile example_clang ''int f();'' [''-O2''] None
          (getDefaultFilters @ [(''binary'', True)]), Some None)
   \<and> query_filters (api_request\<lparr>query_addFilters := Some ''binary''\<rparr>) = None
   \<and> getDefaultFilters @ [(''binary'', True)] \<noteq> getDefaultFilters"
  by (simp add: handler_def dispatch_def example_compilers_def api_request_def getRemote_def
      example_clang_def str_or_empty_def api_filters_def getDefaultFilters_def truthy_str_def
      set_key_def array_index_def delete_key_def)

section \<open>Running the produced binary\<close>

lemma execBinary_rejected:
  "sandbox w x [] (no_options\<lparr>maxOutput := Some n, timeoutMs := Some 60000\<rparr>) = (Rejected e, fx)
   \<Longrightarrow> execBinary parse w x result n
       = (Resolved (result\<lparr>execResult := Some (ExecFailed
            \<lparr>status = None, signal = None, stdout = [], stderr = rej_message e\<rparr>)\<rparr>),
          Sandbox x # fx)"
  by (simp add: execBinary_def)

text \<open>
  C9. When the sandbox rejects, \<open>execBinary\<close> still resolves with the compile result and
  sets \<open>execResult\<close> to \<open>{stdout: [], stderr: e.message, status: null, signal: null}\<close>.
  The sandbox rejects with the result object of the failed \<open>docker\<close> command, which has no
  \<open>message\<close> property: here \<open>docker wait\<close> exits with status 1 after writing
  \<open>Error: No such container\<close>, and \<open>stderr\<close> of \<open>execResult\<close> is \<open>undefined\<close>, not that
  message.
\<close>

theorem execBinary_drops_message:
  "fst (sandbox example_sandbox ''/tmp/ce1/output'' []
          (no_options\<lparr>maxOutput := Some 32768, timeoutMs := Some 60000\<rparr>))
     = Rejected (RejResult \<lparr>status = Some 1, signal = None, stdout = [],
                   stderr = ''Error: No such container'', okToCache = True\<rparr>)
   \<and> fst (execBinary parse example_sandbox ''/tmp/ce1/output'' ok_result 32768)
     = Resolved (ok_result\<lparr>execResult := Some (ExecFailed
          \<lparr>status = None, signal = None, stdout = [], stderr = None\<rparr>)\<rparr>)"
  by (simp add: sandbox_defs runner_defs failed_def truthy_str_def)

section \<open>Fetching the compilers of a peer\<close>

lemma retryPromise_effects:
  "\<exists>n. 1 \<le> n \<and> int n \<le> max 1 (maxFails - int k)
       \<and> snd (retryPromise (\<lambda>i. (q i, [g])) maxFails ms k) = attempt_trace g ms n"
proof (induction "\<lambda>i::nat. (q i, [g])" maxFails ms k rule: retryPromise.induct)
  case (1 maxFails ms k)
  show ?case
  proof (cases "\<exists>e. q k = Rejected e \<and> int (k + 1) < maxFails")
    case True
    then obtain e where e: "q k = Rejected e" and lt: "int (k + 1) < maxFails" by blast
    from 1 [OF _ refl lt, of e "[g]"] e obtain n where n: "1 \<le> n"
      "int n \<le> max 1 (maxFails - int (k + 1))"
      "snd (retryPromise (\<lambda>i. (q i, [g])) maxFails ms (k + 1)) = attempt_trace g ms n"
      by auto
    from n(1) obtain m where m: "n = Suc m" by (cases n) auto
    have "snd (retryPromise (\<lambda>i. (q i, [g])) maxFails ms k) = attempt_trace g ms (Suc n)"
      using e lt n(3) m
      by (subst retryPromise.simps) (simp add: split_beta attempt_trace_def)
    moreover have "int (Suc n) \<le> max 1 (maxFails - int k)"
      using n(2) lt by simp
    ultimately show ?thesis by (intro exI [of _ "Suc n"]) simp
  next
    case False
    then have "snd (retryPromise (\<lambda>i. (q i, [g])) maxFails ms k) = attempt_trace g ms 1"
      by (subst retryPromise.simps) (auto simp: attempt_trace_def split: promise.splits)
    then show ?thesis by (intro exI [of _ 1]) simp
  qed
qed

lemma retryPromise_resolved:
  "fst (retryPromise f maxFails ms k) = Resolved a \<Longrightarrow> \<exists>i. fst (f i) = Resolved a"
proof (induction f maxFails ms k rule: retryPromise.induct)
  case (1 f maxFails ms k)
  show ?case
  proof (cases "f k")
    case (Pair p fx)
    show ?thesis
    proof (cases p)
      case (Resolved b)
      with Pair "1.prems" have "fst (f k) = Resolved a"
        by (subst (asm) retryPromise.simps) simp
      then show ?thesis by blast
    next
      case (Rejected e)
      show ?thesis
      proof (cases "int (k + 1) < maxFails")
        case True
        with Pair Rejected "1.prems"
        have "fst (retryPromise f maxFails ms (k + 1)) = Resolved a"
          by (subst (asm) retryPromise.simps) (simp add: split_beta)
        with "1.IH" [OF _ refl True, of e fx] Pair Rejected show ?thesis by simp
      next
        case False
        with Pair Rejected "1.prems" show ?thesis
          by (subst (asm) retryPromise.simps) simp
      qed
    next
      case Pending
      with Pair "1.prems" show ?thesis
        by (subst (asm) retryPromise.simps) simp
    qed
  qed
qed

lemma retryPromise_all_fail:
  "\<forall>i. k \<le> i \<and> (i = k \<or> int i < maxFails) \<longrightarrow> (\<exists>e. q i = Rejected e)
   \<Longrightarrow> (\<exists>e. fst (retryPromise (\<lambda>i. (q i, [g])) maxFails ms k) = Rejected e)
       \<and> snd (retryPromise (\<lambda>i. (q i, [g])) maxFails ms k)
           = attempt_trace g ms (nat (max 1 (maxFails - int k)))"
proof (induction "\<lambda>i::nat. (q i, [g])" maxFails ms k rule: retryPromise.induct)
  case (1 maxFails ms k)
  from "1.prems" obtain e where e: "q k = Rejected e" by blast
  show ?case
  proof (cases "int (k + 1) < maxFails")
    case True
    have later: "\<forall>i. k + 1 \<le> i \<and> (i = k + 1 \<or> int i < maxFails) \<longrightarrow> (\<exists>e. q i = Rejected e)"
      using "1.prems" True by auto
    from "1.hyps" [OF _ refl True later, of e "[g]"] e
    have ih: "\<exists>e. fst (retryPromise (\<lambda>i. (q i, [g])) maxFails ms (k + 1)) = Rejected e"
      "snd (retryPromise (\<lambda>i. (q i, [g])) maxFails ms (k + 1))
         = attempt_trace g ms (nat (max 1 (maxFails - int (k + 1))))"
      by auto
    from True obtain m where m: "nat (max 1 (maxFails - int (k + 1))) = Suc m"
      by (cases "nat (max 1 (maxFails - int (k + 1)))") auto
    with True have m': "nat (max 1 (maxFails - int k)) = Suc (Suc m)" by simp
    show ?thesis
      using e True ih m m'
      by (subst (1 2) retryPromise.simps) (simp add: split_beta attempt_trace_def)
  next
    case False
    then have "nat (max 1 (maxFails - int k)) = 1" by simp
    with e False show ?thesis
      by (subst (1 2) retryPromise.simps) (simp add: attempt_trace_def)
  qed
qed

lemma retryPromise_first:
  "\<forall>i. j \<le> i \<and> i < k \<longrightarrow> (\<exists>e. q i = Rejected e) \<Longrightarrow> \<forall>e. q k \<noteq> Rejected e
   \<Longrightarrow> j \<le> k \<Longrightarrow> k = j \<or> int k < maxFails
   \<Longrightarrow> retryPromise (\<lambda>i. (q i, [g])) maxFails ms j = (q k, attempt_trace g ms (Suc (k - j)))"
proof (induction "k - j" arbitrary: j)
  case 0
  then have "k = j" by simp
  with "0.prems"(2) show ?case
    by (subst retryPromise.simps) (cases "q j"; simp add: attempt_trace_def)
next
  case (Suc d)
  then have lt: "j < k" by simp
  with Suc.prems obtain e where e: "q j = Rejected e" by blast
  from lt Suc.prems(4) have more: "int (j + 1) < maxFails" by auto
  have "retryPromise (\<lambda>i. (q i, [g])) maxFails ms (j + 1)
      = (q k, attempt_trace g ms (Suc (k - (j + 1))))"
  proof (rule Suc.hyps(1))
    show "d = k - (j + 1)" using Suc.hyps(2) by simp
    show "\<forall>i. j + 1 \<le> i \<and> i < k \<longrightarrow> (\<exists>e. q i = Rejected e)" using Suc.prems(1) by auto
    show "\<forall>e. q k \<noteq> Rejected e" by (rule Suc.prems(2))
    show "j + 1 \<le> k" using lt by simp
    show "k = j + 1 \<or> int k < maxFails" using Suc.prems(4) lt by auto
  qed
  moreover from lt obtain m where "k - j = Suc m" "k - (j + 1) = m"
    by (cases "k - j") auto
  ultimately show ?case
    using e more
    by (subst retryPromise.simps) (simp add: attempt_trace_def)
qed

lemma split_on_nonempty: "split_on c s \<noteq> []"
  by (induction s) (auto split: list.splits)

lemma split_on_two: "c \<in> set s \<Longrightarrow> \<exists>a b others. split_on c s = a # b # others"
proof (induction s)
  case Nil
  then show ?case by simp
next
  case (Cons x xs)
  show ?case
  proof (cases "x = c")
    case True
    then show ?thesis using split_on_nonempty [of c xs] by (cases "split_on c xs") auto
  next
    case False
    with Cons obtain a b others where "split_on c xs = a # b # others" by auto
    with False show ?thesis by simp
  qed
qed

lemma fetch_attempt_split:
  "(\<lambda>i. fetch_attempt host port (peer i))
   = (\<lambda>i. (fst (fetch_attempt host port (peer i)), [HttpGet host port ''/api/compilers'']))"
  by (auto simp: fetch_attempt_def)

lemma fetchRemote_effects:
  "\<exists>n. 1 \<le> n \<and> int n \<le> max 1 retries
       \<and> snd (fetchRemote peer host port retries ms)
           = attempt_trace (HttpGet host port ''/api/compilers'') ms n"
proof -
  from retryPromise_effects [of retries 0 "\<lambda>i. fst (fetch_attempt host port (peer i))"
      "HttpGet host port ''/api/compilers''" ms]
  obtain n where "1 \<le> n" "int n \<le> max 1 retries"
    "snd (retryPromise (\<lambda>i. fetch_attempt host port (peer i)) retries ms 0)
       = attempt_trace (HttpGet host port ''/api/compilers'') ms n"
    by (auto simp: fetch_attempt_split [symmetric])
  then show ?thesis
    by (auto simp: fetchRemote_def split: prod.splits promise.splits)
qed

lemma fetchRemote_not_rejected: "fst (fetchRemote peer host port retries ms) \<noteq> Rejected e"
  by (auto simp: fetchRemote_def split: prod.splits promise.splits)

lemma fetchRemote_resolved:
  assumes "fst (fetchRemote peer host port retries ms) = Resolved compilers"
  shows "\<forall>c \<in> set compilers. exe c = None \<and> remote c = Some (remote_url host port)"
proof (cases "fst (retryPromise (\<lambda>i. fetch_attempt host port (peer i)) retries ms 0)")
  case (Resolved a)
  with assms have "a = compilers"
    by (auto simp: fetchRemote_def split: prod.splits promise.splits)
  with Resolved retryPromise_resolved [of "\<lambda>i. fetch_attempt host port (peer i)" retries ms 0 a]
  obtain i where "fst (fetch_attempt host port (peer i)) = Resolved compilers" by auto
  then show ?thesis
    by (auto simp: fetch_attempt_def split: http_outcome.splits)
next
  case (Rejected e)
  with assms have "compilers = []"
    by (auto simp: fetchRemote_def split: prod.splits promise.splits)
  then show ?thesis by simp
next
  case Pending
  with assms show ?thesis
    by (auto simp: fetchRemote_def split: prod.splits promise.splits)
qed

lemma fetchRemote_all_fail:
  assumes "\<forall>i. int i < max 1 retries \<longrightarrow> is_failure (peer i)"
  shows "fetchRemote peer host port retries ms
       = (Resolved [], attempt_trace (HttpGet host port ''/api/compilers'') ms
                         (nat (max 1 retries)))"
proof -
  have "\<forall>i. 0 \<le> i \<and> (i = 0 \<or> int i < retries)
          \<longrightarrow> (\<exists>e. fst (fetch_attempt host port (peer i)) = Rejected e)"
    using assms by (auto simp: is_failure_def fetch_attempt_def split: http_outcome.splits)
  from retryPromise_all_fail [OF this, of "HttpGet host port ''/api/compilers''" ms]
  show ?thesis
    by (auto simp: fetchRemote_def fetch_attempt_split [symmetric] split: prod.splits promise.splits)
qed

lemma fetchRemote_first:
  assumes "int k < max 1 retries" and "\<forall>i<k. is_failure (peer i)" and "\<not> is_failure (peer k)"
  shows "fetchRemote peer host port retries ms
       = ((case peer k of
             Body compilers \<Rightarrow>
               Resolved (map (\<lambda>c. c\<lparr>exe := None, remote := Some (remote_url host port)\<rparr>) compilers)
           | _ \<Rightarrow> Pending),
          attempt_trace (HttpGet host port ''/api/compilers'') ms (Suc k))"
proof -
  let ?q = "\<lambda>i. fst (fetch_attempt host port (peer i))"
  have "\<forall>i. 0 \<le> i \<and> i < k \<longrightarrow> (\<exists>e. ?q i = Rejected e)"
    using assms(2) by (auto simp: is_failure_def fetch_attempt_def split: http_outcome.splits)
  moreover have "\<forall>e. ?q k \<noteq> Rejected e"
    using assms(3) by (auto simp: is_failure_def fetch_attempt_def split: http_outcome.splits)
  moreover have "k = 0 \<or> int k < retries"
    using assms(1) by auto
  ultimately have "retryPromise (\<lambda>i. (?q i, [HttpGet host port ''/api/compilers''])) retries ms 0
      = (?q k, attempt_trace (HttpGet host port ''/api/compilers'') ms (Suc (k - 0)))"
    by (intro retryPromise_first) simp_all
  then show ?thesis
    using assms(3)
    by (auto simp: fetchRemote_def fetch_attempt_split [symmetric] fetch_attempt_def is_failure_def
        split: http_outcome.splits)
qed

lemma promise_all_rejected:
  "fst (promise_all ps) = Rejected e \<Longrightarrow> \<exists>p \<in> set ps. fst p = Rejected e"
proof (induction ps)
  case Nil
  then show ?case by simp
next
  case (Cons p ps)
  then show ?case
    by (cases p) (auto split: prod.splits promise.splits)
qed

lemma seed_compilers_rejected:
  "fst (seed_compilers w exes) = Rejected e
   \<Longrightarrow> \<exists>t \<in> set exes. fst (recurseGetCompilers w t) = Rejected e"
proof -
  assume "fst (seed_compilers w exes) = Rejected e"
  then have "fst (promise_all (map (recurseGetCompilers w) exes)) = Rejected e"
    by (auto simp: seed_compilers_def split: prod.splits promise.splits)
  from promise_all_rejected [OF this] show ?thesis by auto
qed

lemma parseInt_10240: "parseInt ''10240'' = Num 10240"
  by (simp add: parseInt_def is_space_def space_chars_def digit_value_def hex_value_def
      to_double_def Let_def)

lemma number_text_10240: "number_text (Num 10240) = ''10240''"
  by (simp add: number_text_def nat_text_def show_nat_big show_nat_small digit_char_def)

text \<open>
  C8, as amended. For a seed token \<open>host@port\<close>, \<open>recurseGetCompilers\<close> issues HTTP GET
  requests for \<open>/api/compilers\<close> to \<open>host\<close> at the port \<open>parseInt(port)\<close>: at least one and at
  most \<open>max(1, proxyRetries)\<close> of them, with a timer of \<open>proxyRetryMs\<close> between two requests.
  The requests stop at the first one that does not end in an error or a timeout: if that
  one is answered with a list of descriptors, the token contributes exactly that list,
  each descriptor with \<open>exe\<close> set to null and \<open>remote\<close> set to
  \<open>"http://" + host + ":" + port\<close>, and otherwise the promise of the token stays pending.
  When all \<open>max(1, proxyRetries)\<close> attempts end in an error or a timeout, the token
  contributes the empty list. The promise of the token is never rejected, so a rejection
  of the seed list comes from another token.
\<close>

theorem peer_fetch:
  assumes "CHR ''@'' \<in> set token"
    and "split_on CHR ''@'' token = host # portText # others"
    and "recurseGetCompilers w token = (p, fx)"
  shows "(\<exists>n. 1 \<le> n \<and> int n \<le> max 1 (proxyRetries w)
            \<and> fx = attempt_trace (HttpGet host (parseInt portText) ''/api/compilers'')
                     (proxyRetryMs w) n)
       \<and> (\<forall>k. int k < max 1 (proxyRetries w)
              \<and> (\<forall>i<k. is_failure (peers w host (parseInt portText) i))
              \<and> \<not> is_failure (peers w host (parseInt portText) k)
            \<longrightarrow> fx = attempt_trace (HttpGet host (parseInt portText) ''/api/compilers'')
                       (proxyRetryMs w) (Suc k)
              \<and> p = (case peers w host (parseInt portText) k of
                        Body compilers \<Rightarrow>
                          Resolved (map (\<lambda>c. c\<lparr>exe := None,
                                      remote := Some (''http://'' @ host @ '':''
                                                        @ number_text (parseInt portText))\<rparr>)
                                      compilers)
                      | _ \<Rightarrow> Pending))
       \<and> (\<forall>compilers. p = Resolved compilers
            \<longrightarrow> (\<forall>c \<in> set compilers.
                   exe c = None \<and> remote c = Some (remote_url host (parseInt portText))))
       \<and> ((\<forall>n. int n < max 1 (proxyRetries w)
                 \<longrightarrow> is_failure (peers w host (parseInt portText) n))
            \<longrightarrow> p = Resolved []
              \<and> fx = attempt_trace (HttpGet host (parseInt portText) ''/api/compilers'')
                       (proxyRetryMs w) (nat (max 1 (proxyRetries w))))
       \<and> (\<forall>e. p \<noteq> Rejected e)
       \<and> (\<forall>exes e. fst (seed_compilers w exes) = Rejected e
            \<longrightarrow> (\<exists>t \<in> set exes. t \<noteq> token \<and> fst (recurseGetCompilers w t) = Rejected e))"
proof -
  let ?port = "parseInt portText"
  let ?fetch = "fetchRemote (peers w host ?port) host ?port (proxyRetries w) (proxyRetryMs w)"
  from assms have eq: "?fetch = (p, fx)"
    by (simp add: recurseGetCompilers_def fetchCompilersFromRemote_def)
  then have p: "p = fst ?fetch" and fx: "fx = snd ?fetch" by simp_all
  have one: "\<exists>n. 1 \<le> n \<and> int n \<le> max 1 (proxyRetries w)
            \<and> fx = attempt_trace (HttpGet host ?port ''/api/compilers'') (proxyRetryMs w) n"
    unfolding fx by (rule fetchRemote_effects)
  have first: "fx = attempt_trace (HttpGet host ?port ''/api/compilers'') (proxyRetryMs w) (Suc k)
      \<and> p = (case peers w host ?port k of
                Body compilers \<Rightarrow>
                  Resolved (map (\<lambda>c. c\<lparr>exe := None,
                              remote := Some (''http://'' @ host @ '':'' @ number_text ?port)\<rparr>)
                              compilers)
              | _ \<Rightarrow> Pending)"
    if "int k < max 1 (proxyRetries w) \<and> (\<forall>i<k. is_failure (peers w host ?port i))
        \<and> \<not> is_failure (peers w host ?port k)" for k
  proof -
    from that have a: "int k < max 1 (proxyRetries w)"
      and b: "\<forall>i<k. is_failure (peers w host ?port i)"
      and c: "\<not> is_failure (peers w host ?port k)"
      by simp_all
    from fetchRemote_first [OF a b c, of host ?port "proxyRetryMs w",
        unfolded remote_url_def port_text_def] eq
    show ?thesis by simp
  qed
  have two: "\<forall>c \<in> set compilers. exe c = None \<and> remote c = Some (remote_url host ?port)"
    if "p = Resolved compilers" for compilers
    using that unfolding p by (rule fetchRemote_resolved)
  have three: "p = Resolved []
        \<and> fx = attempt_trace (HttpGet host ?port ''/api/compilers'')
                 (proxyRetryMs w) (nat (max 1 (proxyRetries w)))"
    if "\<forall>n. int n < max 1 (proxyRetries w) \<longrightarrow> is_failure (peers w host ?port n)"
    using fetchRemote_all_fail [OF that, of host ?port "proxyRetryMs w"] eq
    by simp
  have four: "p \<noteq> Rejected e" for e
    unfolding p by (rule fetchRemote_not_rejected)
  have five: "\<exists>t \<in> set exes. t \<noteq> token \<and> fst (recurseGetCompilers w t) = Rejected e"
    if "fst (seed_compilers w exes) = Rejected e" for exes e
  proof -
    from seed_compilers_rejected [OF that]
    obtain t where t: "t \<in> set exes" "fst (recurseGetCompilers w t) = Rejected e" by blast
    with assms(3) four have "t \<noteq> token" by auto
    with t show ?thesis by blast
  qed
  from one first two three four five show ?thesis by blast
qed

text \<open>A peer that answers at the third of three attempts, and one that never answers.\<close>

theorem peer_fetch_witness:
  "recurseGetCompilers example_registry ''peer@10240''
     = (Resolved [example_clang\<lparr>exe := None, remote := Some ''http://peer:10240''\<rparr>],
        [HttpGet ''peer'' ((Num 10240)) ''/api/compilers'', SetTimeout 500,
         HttpGet ''peer'' ((Num 10240)) ''/api/compilers'', SetTimeout 500,
         HttpGet ''peer'' ((Num 10240)) ''/api/compilers''])
   \<and> recurseGetCompilers (example_registry\<lparr>peers := \<lambda>host port n. HttpTimeout\<rparr>) ''peer@10240''
     = (Resolved [],
        [HttpGet ''peer'' ((Num 10240)) ''/api/compilers'', SetTimeout 500,
         HttpGet ''peer'' ((Num 10240)) ''/api/compilers'', SetTimeout 500,
         HttpGet ''peer'' ((Num 10240)) ''/api/compilers''])"
proof -
  have s: "split_on CHR ''@'' ''peer@10240'' = ''peer'' # ''10240'' # []"
    by simp
  have a: "CHR ''@'' \<in> set ''peer@10240''"
    by simp
  have r: "recurseGetCompilers example_registry ''peer@10240''
     = (Resolved [example_clang\<lparr>exe := None, remote := Some ''http://peer:10240''\<rparr>],
        [HttpGet ''peer'' ((Num 10240)) ''/api/compilers'', SetTimeout 500,
         HttpGet ''peer'' ((Num 10240)) ''/api/compilers'', SetTimeout 500,
         HttpGet ''peer'' ((Num 10240)) ''/api/compilers''])"
    by (simp add: recurseGetCompilers_def fetchCompilersFromRemote_def parseInt_10240
        example_registry_def fetchRemote_def retryPromise.simps fetch_attempt_def
        remote_url_def port_text_def number_text_10240)
  obtain p fx where d: "recurseGetCompilers (example_registry\<lparr>peers := \<lambda>host port n. HttpTimeout\<rparr>)
      ''peer@10240'' = (p, fx)"
    by (cases "recurseGetCompilers (example_registry\<lparr>peers := \<lambda>host port n. HttpTimeout\<rparr>)
      ''peer@10240''")
  from peer_fetch [OF a s r] peer_fetch [OF a s d] r d show ?thesis
    by (simp add: is_failure_def example_registry_def parseInt_10240 attempt_trace_def
        numeral_3_eq_3)
qed

text \<open>
  C8 as stated fails: with \<open>proxyRetries=0\<close> one request is still made, where "up to
  \<open>proxyRetries\<close> attempts" allows none.
\<close>

theorem peer_fetch_counterexample:
  "proxyRetries dead_registry = 0
   \<and> recurseGetCompilers dead_registry ''peer@10240''
     = (Resolved [], [HttpGet ''peer'' ((Num 10240)) ''/api/compilers''])"
  by (simp add: recurseGetCompilers_def fetchCompilersFromRemote_def parseInt_10240
      dead_registry_def fetchRemote_def retryPromise.simps fetch_attempt_def)

end
